theory Spec2Isabelle
  imports Complex_Main
begin

section \<open>JavaScript values\<close>

text \<open>
  The service handles values parsed from JSON bodies and values handed in by its callers.
  A value is \<open>undefined\<close>, \<open>null\<close>, a boolean, a number, a string, an array or an object.
  Numbers are the safe integers, of magnitude at most 2^53 - 1 (result counts, page counts,
  the result-size bound): the integers that a double holds exactly and prints in plain
  decimal notation. A string is a list of code units below 256
  (Latin-1), so the accented letters of the service's messages are single characters.
  An object is its list of own properties in insertion order.
\<close>

datatype jsval =
    JUndef
  | JNull
  | JBool bool
  | JNum int
  | JStr string
  | JArr "jsval list"
  | JObj "(string \<times> jsval) list"

text \<open>Truthiness, as \<open>!x\<close>, \<open>if (x)\<close> and \<open>||\<close> test it.\<close>

fun truthy :: "jsval \<Rightarrow> bool" where
  "truthy JUndef = False"
| "truthy JNull = False"
| "truthy (JBool b) = b"
| "truthy (JNum n) = (n \<noteq> 0)"
| "truthy (JStr s) = (s \<noteq> [])"
| "truthy (JArr xs) = True"
| "truthy (JObj kvs) = True"

text \<open>\<open>a || b\<close>\<close>

definition js_or :: "jsval \<Rightarrow> jsval \<Rightarrow> jsval" where
  "js_or a b = (if truthy a then a else b)"

text \<open>
  \<open>x.name\<close> for a receiver that is neither \<open>null\<close> nor \<open>undefined\<close> and a name that no
  built-in prototype defines (every name the service reads is such a name): the own property
  of an object, \<open>undefined\<close> on anything else. Reading a property of \<open>null\<close> or
  \<open>undefined\<close> throws; every call site below guards that case itself.
\<close>

fun js_get :: "jsval \<Rightarrow> string \<Rightarrow> jsval" where
  "js_get (JObj kvs) k = (case map_of kvs k of None \<Rightarrow> JUndef | Some v \<Rightarrow> v)"
| "js_get _ k = JUndef"

definition nullish :: "jsval \<Rightarrow> bool" where
  "nullish v = (v = JNull \<or> v = JUndef)"

subsection \<open>Numbers as strings\<close>

definition digit_char :: "nat \<Rightarrow> char" where
  "digit_char d = char_of (48 + d)"

fun dec :: "nat \<Rightarrow> string" where
  "dec n = (if n < 10 then [digit_char n] else dec (n div 10) @ [digit_char (n mod 10)])"

declare dec.simps [simp del]

text \<open>\<open>Number.MAX_SAFE_INTEGER\<close> bounds the integers that the model takes as numbers.\<close>

definition safe_int :: "int \<Rightarrow> bool" where
  "safe_int i = (- 9007199254740991 \<le> i \<and> i \<le> 9007199254740991)"

text \<open>
  The string form of a number. Beyond the safe integers a double rounds the integer, prints
  at most 17 significant digits and, from 10^21 on, switches to exponent notation; the
  model leaves that string unspecified, and nothing below is proved about it.
\<close>

definition num_str :: "int \<Rightarrow> string" where
  "num_str i =
     (if safe_int i then (if i < 0 then CHR ''-'' # dec (nat (- i)) else dec (nat i))
      else undefined)"

subsection \<open>Strings\<close>

text \<open>The white space and line terminators that \<open>String.prototype.trim\<close> strips.\<close>

definition is_space :: "char \<Rightarrow> bool" where
  "is_space c = (c = CHR 0x09 \<or> c = CHR 0x0A \<or> c = CHR 0x0B \<or> c = CHR 0x0C \<or> c = CHR 0x0D
                 \<or> c = CHR 0x20 \<or> c = CHR 0xA0)"

definition trim :: "string \<Rightarrow> string" where
  "trim s = rev (dropWhile is_space (rev (dropWhile is_space s)))"

text \<open>\<open>xs.join(sep)\<close> on strings already converted.\<close>

fun join_strs :: "string \<Rightarrow> string list \<Rightarrow> string" where
  "join_strs sep [] = []"
| "join_strs sep [s] = s"
| "join_strs sep (s # t # ss) = s @ sep @ join_strs sep (t # ss)"

text \<open>
  The conversion to string of template literals and of \<open>Array.prototype.join\<close>. \<open>None\<close> is
  a thrown TypeError: an object whose own property \<open>toString\<close> shadows the inherited method
  has no callable conversion left that yields a primitive (a parsed value is never a
  function). Inside \<open>join\<close>, \<open>null\<close> and \<open>undefined\<close> elements become the empty string.
\<close>

fun js_toString :: "jsval \<Rightarrow> string option"
  and js_join_elems :: "jsval list \<Rightarrow> string list option" where
  "js_toString JUndef = Some ''undefined''"
| "js_toString JNull = Some ''null''"
| "js_toString (JBool b) = Some (if b then ''true'' else ''false'')"
| "js_toString (JNum n) = Some (num_str n)"
| "js_toString (JStr s) = Some s"
| "js_toString (JArr xs) = map_option (join_strs '','') (js_join_elems xs)"
| "js_toString (JObj kvs) =
     (if ''toString'' \<in> fst ` set kvs then None else Some ''[object Object]'')"
| "js_join_elems [] = Some []"
| "js_join_elems (x # xs) =
     (case (if x = JNull \<or> x = JUndef then Some [] else js_toString x) of
        None \<Rightarrow> None
      | Some s \<Rightarrow> (case js_join_elems xs of None \<Rightarrow> None | Some ss \<Rightarrow> Some (s # ss)))"

text \<open>\<open>v.join(sep)\<close>: only an array has a callable \<open>join\<close>.\<close>

fun js_join :: "jsval \<Rightarrow> string \<Rightarrow> string option" where
  "js_join (JArr xs) sep = map_option (join_strs sep) (js_join_elems xs)"
| "js_join _ sep = None"

section \<open>Normalisation of raw book records\<close>

record ImageLinks =
  thumbnail :: jsval
  small :: jsval
  medium :: jsval
  large :: jsval

record BookRecord =
  bookId :: jsval
  titulo :: jsval
  autor :: string
  portadaUrl :: jsval
  imageLinks :: ImageLinks
  sinopsis :: jsval
  anoPublicacion :: jsval
  fechaPublicacion :: jsval
  editorial :: jsval
  idioma :: jsval
  numeroPaginas :: jsval
  generos :: jsval
  categorias :: jsval
  isbn :: jsval
  industryIdentifiers :: jsval
  previewLink :: jsval
  infoLink :: jsval
  rating :: jsval
  ratingsCount :: jsval
  transformedAt :: string

subsection \<open>extractYear\<close>

definition is_digit :: "char \<Rightarrow> bool" where
  "is_digit c = (c \<in> set ''0123456789'')"

text \<open>The leftmost match of \<open>/(\d{4})/\<close>.\<close>

fun match_4digits :: "string \<Rightarrow> string option" where
  "match_4digits (a # b # c # d # rest) =
     (if is_digit a \<and> is_digit b \<and> is_digit c \<and> is_digit d then Some [a, b, c, d]
      else match_4digits (b # c # d # rest))"
| "match_4digits _ = None"

text \<open>\<open>parseInt(s, 10)\<close> on a run of decimal digits.\<close>

definition parseInt10 :: "string \<Rightarrow> int" where
  "parseInt10 s = foldl (\<lambda>acc c. 10 * acc + (int (of_char c) - 48)) 0 s"

text \<open>
  \<open>None\<close> is the TypeError of \<open>dateString.match\<close> on a truthy value that is not a string.
\<close>

fun extractYear :: "jsval \<Rightarrow> jsval option" where
  "extractYear (JStr s) =
     (if s = [] then Some JNull
      else (case match_4digits s of None \<Rightarrow> Some JNull | Some y \<Rightarrow> Some (JNum (parseInt10 y))))"
| "extractYear v = (if \<not> truthy v then Some JNull else None)"

subsection \<open>transformBookData\<close>

text \<open>
  \<open>industryIdentifiers.find(id => id.type === 'ISBN_13' || id.type === 'ISBN_10')\<close> on the
  elements of an array: \<open>None\<close> is the TypeError of reading \<open>type\<close> from a \<open>null\<close> element,
  \<open>Some JUndef\<close> is "no element found".
\<close>

text \<open>The callback of \<open>find\<close>, on an element that is neither \<open>null\<close> nor \<open>undefined\<close>.\<close>

definition is_isbn_id :: "jsval \<Rightarrow> bool" where
  "is_isbn_id x = (js_get x ''type'' = JStr ''ISBN_13'' \<or> js_get x ''type'' = JStr ''ISBN_10'')"

fun find_isbn :: "jsval list \<Rightarrow> jsval option" where
  "find_isbn [] = Some JUndef"
| "find_isbn (x # xs) =
     (if nullish x then None
      else if is_isbn_id x then Some x
      else find_isbn xs)"

text \<open>
  The steps of the \<open>try\<close> block, in the order of the source. \<open>None\<close> is an exception
  thrown by the step.
\<close>

text \<open>\<open>book.imageLinks || {}\<close>\<close>

definition imageLinks_of :: "jsval \<Rightarrow> jsval" where
  "imageLinks_of book = js_or (js_get book ''imageLinks'') (JObj [])"

text \<open>\<open>portadaUrl\<close>: the first truthy image variant, else \<open>null\<close>.\<close>

definition portadaUrl_of :: "jsval \<Rightarrow> jsval" where
  "portadaUrl_of imgs =
     js_or (js_get imgs ''thumbnail'')
       (js_or (js_get imgs ''smallThumbnail'')
         (js_or (js_get imgs ''medium'')
           (js_or (js_get imgs ''large'') JNull)))"

text \<open>
  \<open>autores\<close> and \<open>generos\<close>: \<open>x || []\<close>, and a string wrapped into a one-element array.
\<close>

definition as_array :: "jsval \<Rightarrow> jsval" where
  "as_array v = (let xs = js_or v (JArr []) in case xs of JStr s \<Rightarrow> JArr [xs] | _ \<Rightarrow> xs)"

text \<open>\<open>autor = autores.join(', ') || 'Autor desconocido'\<close>\<close>

definition autor_of :: "jsval \<Rightarrow> string option" where
  "autor_of book =
     (case js_join (as_array (js_get book ''authors'')) '', '' of
        None \<Rightarrow> None
      | Some joined \<Rightarrow> Some (if joined \<noteq> [] then joined else ''Autor desconocido''))"

text \<open>\<open>book.industryIdentifiers || []\<close>\<close>

definition industryIdentifiers_of :: "jsval \<Rightarrow> jsval" where
  "industryIdentifiers_of book = js_or (js_get book ''industryIdentifiers'') (JArr [])"

text \<open>
  \<open>isbn = industryIdentifiers.find(...)?.identifier || null\<close>: only an array has a callable
  \<open>find\<close>.
\<close>

definition isbn_of :: "jsval \<Rightarrow> jsval option" where
  "isbn_of ids =
     (case ids of
        JArr xs \<Rightarrow>
          (case find_isbn xs of
             None \<Rightarrow> None
           | Some found \<Rightarrow>
               Some (js_or (if found = JUndef then JUndef else js_get found ''identifier'') JNull))
      | _ \<Rightarrow> None)"

text \<open>
  The \<open>try\<close> block as a whole. \<open>stamp\<close> is what \<open>new Date().toISOString()\<close> returns when
  the record is built.
\<close>

definition transform_body :: "string \<Rightarrow> jsval \<Rightarrow> BookRecord option" where
  "transform_body stamp book =
    (let imgs = imageLinks_of book;
         ids = industryIdentifiers_of book
     in case autor_of book of
          None \<Rightarrow> None
        | Some autor_v \<Rightarrow>
           (case isbn_of ids of
              None \<Rightarrow> None
            | Some isbn_v \<Rightarrow>
               (case extractYear (js_get book ''publishedDate'') of
                  None \<Rightarrow> None
                | Some year \<Rightarrow>
                    Some \<lparr> bookId = js_get book ''id'',
                           titulo = js_or (js_get book ''title'')
                                      (JStr (''T'' @ [CHR 0xED] @ ''tulo no disponible'')),
                           autor = autor_v,
                           portadaUrl = portadaUrl_of imgs,
                           imageLinks = \<lparr> thumbnail = js_get imgs ''thumbnail'',
                                           small = js_get imgs ''smallThumbnail'',
                                           medium = js_get imgs ''medium'',
                                           large = js_get imgs ''large'' \<rparr>,
                           sinopsis = js_or (js_get book ''description'') JNull,
                           anoPublicacion = year,
                           fechaPublicacion = js_or (js_get book ''publishedDate'') JNull,
                           editorial = js_or (js_get book ''publisher'') JNull,
                           idioma = js_or (js_get book ''language'') (JStr ''es''),
                           numeroPaginas = js_or (js_get book ''pageCount'') JNull,
                           generos = as_array (js_get book ''categories''),
                           categorias = js_or (js_get book ''categories'') (JArr []),
                           isbn = isbn_v,
                           industryIdentifiers = ids,
                           previewLink = js_or (js_get book ''previewLink'') JNull,
                           infoLink = js_or (js_get book ''infoLink'') JNull,
                           rating = js_or (js_get book ''averageRating'') JNull,
                           ratingsCount = js_or (js_get book ''ratingsCount'') (JNum 0),
                           transformedAt = stamp \<rparr>)))"

text \<open>The guard \<open>!book || !book.id\<close>.\<close>

definition lacks_id :: "jsval \<Rightarrow> bool" where
  "lacks_id book = (\<not> truthy book \<or> \<not> truthy (js_get book ''id''))"

text \<open>
  \<open>transformBookData\<close>: \<open>None\<close> is the returned \<open>null\<close>, both for a record without a
  truthy \<open>id\<close> and for an exception caught by the \<open>catch\<close>.
\<close>

definition transformBookData :: "string \<Rightarrow> jsval \<Rightarrow> BookRecord option" where
  "transformBookData stamp book =
     (if lacks_id book then None else transform_body stamp book)"

text \<open>
  \<open>transformBooksData\<close>: \<open>books.map(...).filter(Boolean)\<close>; \<open>stamps i\<close> is the clock reading
  taken while the record at index \<open>i\<close> is built.
\<close>

definition transformBooksData :: "(nat \<Rightarrow> string) \<Rightarrow> jsval \<Rightarrow> BookRecord list" where
  "transformBooksData stamps books =
     (case books of
        JArr bs \<Rightarrow> List.map_filter (\<lambda>(i, b). transformBookData (stamps i) b) (enumerate 0 bs)
      | _ \<Rightarrow> [])"

section \<open>The catalogue service\<close>

subsection \<open>State\<close>

text \<open>
  What an operation hands back as \<open>data\<close> and what a cache entry holds: the normalised list
  of a search or of the catalogue, or the single record of a detail request (\<open>null\<close> when
  \<open>transformBookData\<close> returned \<open>null\<close>).
\<close>

datatype payload = BookList "BookRecord list" | BookItem "BookRecord option"

record CacheEntry =
  cached_data :: payload
  timestamp :: int

record BooksApiService =
  baseURL :: string
  endpoint_SEARCH :: string
  endpoint_GET_BOOK :: string
  endpoint_GET_ALL :: string
  timeout :: int
  maxResults :: int
  cache :: "(string \<times> CacheEntry) list"
  cacheTimeout :: int
  userEmail :: "string option"

text \<open>The constructor, with the constants of \<open>BOOKS_API\<close>.\<close>

definition new_BooksApiService :: BooksApiService where
  "new_BooksApiService =
     \<lparr> baseURL = ''https://reactnd-books-api.udacity.com'',
       endpoint_SEARCH = ''/search'',
       endpoint_GET_BOOK = ''/books'',
       endpoint_GET_ALL = ''/books'',
       timeout = 10000,
       maxResults = 20,
       cache = [],
       cacheTimeout = 5 * 60 * 1000,
       userEmail = None \<rparr>"

definition setUserEmail :: "string option \<Rightarrow> BooksApiService \<Rightarrow> BooksApiService" where
  "setUserEmail email svc = svc\<lparr>userEmail := email\<rparr>"

definition clearAuthorization :: "BooksApiService \<Rightarrow> BooksApiService" where
  "clearAuthorization svc = svc\<lparr>userEmail := None\<rparr>"

subsection \<open>The cache\<close>

text \<open>
  The cache is a JavaScript \<open>Map\<close>: entries in insertion order, one per key. \<open>Map.set\<close>
  overwrites the entry of a present key in place and appends a new key at the end.
\<close>

fun Map_set :: "'k \<Rightarrow> 'v \<Rightarrow> ('k \<times> 'v) list \<Rightarrow> ('k \<times> 'v) list" where
  "Map_set k v [] = [(k, v)]"
| "Map_set k v (p # ps) = (if fst p = k then (k, v) # ps else p # Map_set k v ps)"

definition Map_delete :: "'k \<Rightarrow> ('k \<times> 'v) list \<Rightarrow> ('k \<times> 'v) list" where
  "Map_delete k ps = filter (\<lambda>p. fst p \<noteq> k) ps"

definition isValidCache :: "int \<Rightarrow> string \<Rightarrow> BooksApiService \<Rightarrow> bool \<times> BooksApiService" where
  "isValidCache now key svc =
     (case map_of (cache svc) key of
        None \<Rightarrow> (False, svc)
      | Some cached \<Rightarrow>
          (let isValid = (now - timestamp cached < cacheTimeout svc)
           in (isValid, if \<not> isValid then svc\<lparr>cache := Map_delete key (cache svc)\<rparr> else svc)))"

definition clearOldCache :: "int \<Rightarrow> BooksApiService \<Rightarrow> BooksApiService" where
  "clearOldCache now svc =
     svc\<lparr>cache := filter (\<lambda>p. \<not> (now - timestamp (snd p) > cacheTimeout svc)) (cache svc)\<rparr>"

text \<open>
  \<open>setCache\<close>: \<open>now\<close> is the clock reading stored with the entry, \<open>now_sw\<close> the one that
  \<open>clearOldCache\<close> takes when it runs.
\<close>

definition setCache :: "int \<Rightarrow> int \<Rightarrow> string \<Rightarrow> payload \<Rightarrow> BooksApiService \<Rightarrow> BooksApiService" where
  "setCache now now_sw key d svc =
     (let svc1 = svc\<lparr>cache := Map_set key \<lparr>cached_data = d, timestamp = now\<rparr> (cache svc)\<rparr>
      in if length (cache svc1) > 100 then clearOldCache now_sw svc1 else svc1)"

definition clearAllCache :: "BooksApiService \<Rightarrow> BooksApiService" where
  "clearAllCache svc = svc\<lparr>cache := []\<rparr>"

record CacheStats =
  entries :: nat
  maxSize :: nat
  timeoutMinutes :: rat

definition getCacheStats :: "BooksApiService \<Rightarrow> CacheStats" where
  "getCacheStats svc =
     \<lparr> entries = length (cache svc), maxSize = 100,
       timeoutMinutes = of_int (cacheTimeout svc) / (60 * 1000) \<rparr>"

subsection \<open>HTTP\<close>

record HttpCall =
  http_method :: string
  http_url :: string
  http_headers :: "(string \<times> string) list"
  http_body :: "jsval option"

text \<open>
  What \<open>fetch\<close> does with a call: the timer aborts it, it rejects for another reason, or a
  response arrives with its status, status text and parsed body (\<open>None\<close> when the body is
  not valid JSON and \<open>response.json()\<close> rejects).
\<close>

datatype FetchOutcome =
    FetchAborted
  | FetchRejected
  | FetchResponse nat string "jsval option"

definition msg_timeout :: string where
  "msg_timeout = ''La petici'' @ [CHR 0xF3] @ ''n ha expirado. Verifica tu conexi'' @ [CHR 0xF3] @ ''n.''"

definition msg_connection :: string where
  "msg_connection = ''Error de conexi'' @ [CHR 0xF3] @ ''n. Verifica tu internet.''"

text \<open>
  \<open>makeRequest\<close>: the call it issues and what it returns, \<open>Inl\<close> the error message of
  \<open>{success: false, error}\<close>, \<open>Inr\<close> the data of \<open>{success: true, data}\<close>.
\<close>

definition makeRequest ::
  "BooksApiService \<Rightarrow> (HttpCall \<Rightarrow> FetchOutcome) \<Rightarrow> string \<Rightarrow> string \<Rightarrow> jsval option
     \<Rightarrow> HttpCall \<times> (string + jsval)" where
  "makeRequest svc fetch method endpoint body =
     (let headers = [(''Content-Type'', ''application/json''), (''Accept'', ''application/json'')]
                    @ (case userEmail svc of
                         None \<Rightarrow> []
                       | Some e \<Rightarrow> if e \<noteq> [] then [(''Authorization'', e)] else []);
          call = \<lparr> http_method = method, http_url = baseURL svc @ endpoint,
                   http_headers = headers, http_body = body \<rparr>
      in (call,
          case fetch call of
            FetchAborted \<Rightarrow> Inl msg_timeout
          | FetchRejected \<Rightarrow> Inl msg_connection
          | FetchResponse status statusText parsed \<Rightarrow>
              if \<not> (200 \<le> status \<and> status \<le> 299)
              then Inl (''Error HTTP '' @ dec status @ '': '' @ statusText)
              else (case parsed of None \<Rightarrow> Inl msg_connection | Some d \<Rightarrow> Inr d)))"

subsection \<open>The public operations\<close>

text \<open>
  The result object of an operation; a field that the returned object does not have is
  \<open>None\<close>.
\<close>

record ApiResult =
  success :: bool
  data :: "payload option"
  totalItems :: "jsval option"
  fromCache :: "bool option"
  error :: "string option"

definition failure :: "string \<Rightarrow> ApiResult" where
  "failure msg = \<lparr> success = False, data = None, totalItems = None, fromCache = None,
                   error = Some msg \<rparr>"

text \<open>
  The surroundings of one call of an operation: the network, and the clock readings at the
  places where the operation reads the clock.
\<close>

record Env =
  fetch :: "HttpCall \<Rightarrow> FetchOutcome"
  now_check :: int
  now_stamps :: "nat \<Rightarrow> string"
  now_store :: int
  now_sweep :: int

text \<open>One call of an operation: what it returns, the service afterwards, the calls it sent.\<close>

record Run =
  result :: ApiResult
  service :: BooksApiService
  calls :: "HttpCall list"

text \<open>
  The \<open>options\<close> argument of \<open>searchBooks\<close>; \<open>None\<close> is a property that the object does not
  have. \<open>maxResults\<close> is whatever value the caller put there.
\<close>

record SearchOptions =
  opt_maxResults :: "jsval option"
  opt_useCache :: "bool option"

definition msg_validation :: string where
  "msg_validation = ''La b'' @ [CHR 0xFA] @ ''squeda debe tener al menos 2 caracteres''"

definition msg_search_failed :: string where
  "msg_search_failed = ''Error buscando libros. Intenta de nuevo.''"

text \<open>
  \<open>{ maxResults = this.maxResults, useCache = true } = options\<close>: the default stands in for
  a property that is absent or \<open>undefined\<close>.
\<close>

definition resolve_maxResults :: "BooksApiService \<Rightarrow> SearchOptions \<Rightarrow> jsval" where
  "resolve_maxResults svc options =
     (case opt_maxResults options of
        None \<Rightarrow> JNum (maxResults svc)
      | Some m \<Rightarrow> if m = JUndef then JNum (maxResults svc) else m)"

definition resolve_useCache :: "SearchOptions \<Rightarrow> bool" where
  "resolve_useCache options = (case opt_useCache options of None \<Rightarrow> True | Some b \<Rightarrow> b)"

text \<open>
  \<open>`search_${cleanQuery}_${maxResults}`\<close>; \<open>None\<close> is the TypeError of a \<open>maxResults\<close> that
  has no string form.
\<close>

definition search_cacheKey :: "string \<Rightarrow> jsval \<Rightarrow> string option" where
  "search_cacheKey cleanQuery mr =
     map_option (\<lambda>text. ''search_'' @ cleanQuery @ ''_'' @ text) (js_toString mr)"

definition searchBooks :: "Env \<Rightarrow> BooksApiService \<Rightarrow> jsval \<Rightarrow> SearchOptions \<Rightarrow> Run" where
  "searchBooks env svc query options =
    (if \<not> truthy query
     then \<lparr> result = failure msg_validation, service = svc, calls = [] \<rparr>
     else case query of
       JStr s \<Rightarrow>
        if length (trim s) < 2
        then \<lparr> result = failure msg_validation, service = svc, calls = [] \<rparr>
        else
         (let cleanQuery = trim s;
              mr = resolve_maxResults svc options;
              useCache = resolve_useCache options
          in case search_cacheKey cleanQuery mr of
               None \<Rightarrow> \<lparr> result = failure msg_search_failed, service = svc, calls = [] \<rparr>
             | Some cacheKey \<Rightarrow>
                (let (valid, svc1) = (if useCache then isValidCache (now_check env) cacheKey svc
                                      else (False, svc))
                 in if useCache \<and> valid
                    then (case map_of (cache svc1) cacheKey of
                            None \<Rightarrow>
                              \<lparr> result = failure msg_search_failed, service = svc1, calls = [] \<rparr>
                          | Some e \<Rightarrow>
                              \<lparr> result = \<lparr> success = True, data = Some (cached_data e),
                                           totalItems = None, fromCache = Some True,
                                           error = None \<rparr>,
                                service = svc1, calls = [] \<rparr>)
                    else
                     (let requestBody = JObj [(''query'', JStr cleanQuery), (''maxResults'', mr)];
                          (call, response) =
                            makeRequest svc1 (fetch env) ''POST'' (endpoint_SEARCH svc1)
                              (Some requestBody)
                      in case response of
                           Inl err \<Rightarrow> \<lparr> result = failure err, service = svc1, calls = [call] \<rparr>
                         | Inr d \<Rightarrow>
                             if nullish d
                             then \<lparr> result = failure msg_search_failed, service = svc1,
                                    calls = [call] \<rparr>
                             else
                              (let transformedBooks =
                                     transformBooksData (now_stamps env)
                                       (js_or (js_get d ''books'') (JArr []));
                                   svc2 = (if useCache
                                           then setCache (now_store env) (now_sweep env) cacheKey
                                                  (BookList transformedBooks) svc1
                                           else svc1)
                               in \<lparr> result =
                                      \<lparr> success = True, data = Some (BookList transformedBooks),
                                        totalItems = Some (js_or (js_get d ''totalItems'')
                                                             (JNum (int (length transformedBooks)))),
                                        fromCache = Some False, error = None \<rparr>,
                                    service = svc2, calls = [call] \<rparr>))))
     | _ \<Rightarrow> \<lparr> result = failure msg_search_failed, service = svc, calls = [] \<rparr>)"

definition msg_catalog_failed :: string where
  "msg_catalog_failed = ''Error obteniendo cat'' @ [CHR 0xE1] @ ''logo de libros''"

definition getAllBooks :: "Env \<Rightarrow> BooksApiService \<Rightarrow> bool \<Rightarrow> Run" where
  "getAllBooks env svc useCache =
    (let cacheKey = ''all_books'';
         (valid, svc1) = (if useCache then isValidCache (now_check env) cacheKey svc
                          else (False, svc))
     in if useCache \<and> valid
        then (case map_of (cache svc1) cacheKey of
                None \<Rightarrow> \<lparr> result = failure msg_catalog_failed, service = svc1, calls = [] \<rparr>
              | Some e \<Rightarrow>
                  \<lparr> result = \<lparr> success = True, data = Some (cached_data e),
                               totalItems = None, fromCache = Some True, error = None \<rparr>,
                    service = svc1, calls = [] \<rparr>)
        else
         (let (call, response) = makeRequest svc1 (fetch env) ''GET'' (endpoint_GET_ALL svc1) None
          in case response of
               Inl err \<Rightarrow> \<lparr> result = failure err, service = svc1, calls = [call] \<rparr>
             | Inr d \<Rightarrow>
                 if nullish d
                 then \<lparr> result = failure msg_catalog_failed, service = svc1, calls = [call] \<rparr>
                 else
                  (let transformedBooks =
                         transformBooksData (now_stamps env) (js_or (js_get d ''books'') (JArr []));
                       svc2 = (if useCache
                               then setCache (now_store env) (now_sweep env) cacheKey
                                      (BookList transformedBooks) svc1
                               else svc1)
                   in \<lparr> result =
                          \<lparr> success = True, data = Some (BookList transformedBooks),
                            totalItems = None, fromCache = Some False, error = None \<rparr>,
                        service = svc2, calls = [call] \<rparr>)))"

definition msg_id_required :: string where
  "msg_id_required = ''ID de libro es requerido''"

definition msg_details_failed :: string where
  "msg_details_failed = ''Error obteniendo detalles del libro''"

definition getBookDetails :: "Env \<Rightarrow> BooksApiService \<Rightarrow> jsval \<Rightarrow> bool \<Rightarrow> Run" where
  "getBookDetails env svc book_id useCache =
    (if \<not> truthy book_id
     then \<lparr> result = failure msg_id_required, service = svc, calls = [] \<rparr>
     else case js_toString book_id of
       None \<Rightarrow> \<lparr> result = failure msg_details_failed, service = svc, calls = [] \<rparr>
     | Some idText \<Rightarrow>
        (let cacheKey = ''book_'' @ idText;
             (valid, svc1) = (if useCache then isValidCache (now_check env) cacheKey svc
                              else (False, svc))
         in if useCache \<and> valid
            then (case map_of (cache svc1) cacheKey of
                    None \<Rightarrow> \<lparr> result = failure msg_details_failed, service = svc1, calls = [] \<rparr>
                  | Some e \<Rightarrow>
                      \<lparr> result = \<lparr> success = True, data = Some (cached_data e),
                                   totalItems = None, fromCache = Some True, error = None \<rparr>,
                        service = svc1, calls = [] \<rparr>)
            else
             (let (call, response) = makeRequest svc1 (fetch env) ''GET''
                                       (endpoint_GET_BOOK svc1 @ ''/'' @ idText) None
              in case response of
                   Inl err \<Rightarrow> \<lparr> result = failure err, service = svc1, calls = [call] \<rparr>
                 | Inr d \<Rightarrow>
                    (let transformedBook = transformBookData (now_stamps env 0) d;
                         svc2 = (if useCache
                                 then setCache (now_store env) (now_sweep env) cacheKey
                                        (BookItem transformedBook) svc1
                                 else svc1)
                     in \<lparr> result =
                            \<lparr> success = True, data = Some (BookItem transformedBook),
                              totalItems = None, fromCache = Some False, error = None \<rparr>,
                          service = svc2, calls = [call] \<rparr>))))"

section \<open>Reference definitions from the specification\<close>

text \<open>
  The specification speaks of the "trimmed/case-normalized query text". The service has no
  case folding; this is the normalisation the specification describes, for comparison.
\<close>

definition to_lower :: "char \<Rightarrow> char" where
  "to_lower c =
     (let n = (of_char c :: nat) in if 65 \<le> n \<and> n \<le> 90 then char_of (n + 32) else c)"

definition spec_normalize_query :: "string \<Rightarrow> string" where
  "spec_normalize_query q = map to_lower (trim q)"

text \<open>
  The specification's \<open>isbn\<close>: the identifier of an ISBN-13 entry when there is one, else
  that of an ISBN-10 entry, else absent.
\<close>

definition spec_isbn :: "jsval list \<Rightarrow> jsval" where
  "spec_isbn xs =
     (case find (\<lambda>x. js_get x ''type'' = JStr ''ISBN_13'') xs of
        Some e \<Rightarrow> js_get e ''identifier''
      | None \<Rightarrow>
          (case find (\<lambda>x. js_get x ''type'' = JStr ''ISBN_10'') xs of
             Some e \<Rightarrow> js_get e ''identifier''
           | None \<Rightarrow> JNull))"

section \<open>Notions of the claims about the cache\<close>

text \<open>
  An entry is expired at a clock reading when its age is not below the time-to-live: the
  negation of the test of \<open>isValidCache\<close>.
\<close>

definition expired_at :: "int \<Rightarrow> BooksApiService \<Rightarrow> string \<Rightarrow> bool" where
  "expired_at now svc key =
     (case map_of (cache svc) key of
        None \<Rightarrow> False
      | Some e \<Rightarrow> \<not> (now - timestamp e < cacheTimeout svc))"

text \<open>The service after \<open>this.cache.delete(key)\<close>.\<close>

definition without_entry :: "string \<Rightarrow> BooksApiService \<Rightarrow> BooksApiService" where
  "without_entry key svc = svc\<lparr>cache := Map_delete key (cache svc)\<rparr>"

section \<open>Sample inputs\<close>

definition env_offline :: Env where
  "env_offline = \<lparr> fetch = (\<lambda>c. FetchRejected), now_check = 0, now_stamps = (\<lambda>i. []),
                    now_store = 0, now_sweep = 0 \<rparr>"

definition options5 :: SearchOptions where
  "options5 = \<lparr> opt_maxResults = Some (JNum 5), opt_useCache = None \<rparr>"

definition options_with :: "jsval \<Rightarrow> SearchOptions" where
  "options_with bound = \<lparr> opt_maxResults = Some bound, opt_useCache = None \<rparr>"

definition ids_isbn10_first :: "jsval list" where
  "ids_isbn10_first =
     [JObj [(''type'', JStr ''ISBN_10''), (''identifier'', JStr ''0306406152'')],
      JObj [(''type'', JStr ''ISBN_13''), (''identifier'', JStr ''9780306406157'')]]"

definition book_isbn10_first :: jsval where
  "book_isbn10_first =
     JObj [(''id'', JStr ''x1''), (''title'', JStr ''Foo''), (''authors'', JStr ''Jane Doe''),
           (''industryIdentifiers'', JArr ids_isbn10_first)]"

definition book_bad_authors :: jsval where
  "book_bad_authors = JObj [(''id'', JStr ''a''), (''authors'', JNum 5)]"

definition respond :: "jsval \<Rightarrow> Env" where
  "respond body = \<lparr> fetch = (\<lambda>c. FetchResponse 200 ''OK'' (Some body)),
                      now_check = 1700000000000,
                      now_stamps = (\<lambda>i. ''2023-11-14T22:13:20.000Z''),
                      now_store = 1700000000001, now_sweep = 1700000000001 \<rparr>"

text \<open>The same surroundings one minute later.\<close>

definition one_minute_later :: "Env \<Rightarrow> Env" where
  "one_minute_later env =
     env \<lparr> now_check := now_check env + 60000, now_store := now_store env + 60000,
           now_sweep := now_sweep env + 60000 \<rparr>"

definition body_without_books :: jsval where
  "body_without_books = JObj [(''items'', JArr [book_isbn10_first])]"

definition body_one_book :: jsval where
  "body_one_book = JObj [(''books'', JArr [book_isbn10_first]), (''totalItems'', JNum 1)]"

definition body_record_without_id :: jsval where
  "body_record_without_id = JObj [(''title'', JStr ''Foo'')]"

definition entry_at :: "int \<Rightarrow> CacheEntry" where
  "entry_at t = \<lparr> cached_data = BookList [], timestamp = t \<rparr>"

definition svc_one_entry :: BooksApiService where
  "svc_one_entry = new_BooksApiService \<lparr> cache := [(''all_books'', entry_at 0)] \<rparr>"

text \<open>
  A full cache: 100 entries, the first stored exactly one time-to-live (300000 ms) before
  the clock reading 1700000300000, the others stored at that reading.
\<close>

definition cache_of_100 :: "(string \<times> CacheEntry) list" where
  "cache_of_100 =
     (''k0'', entry_at 1700000000000)
       # map (\<lambda>i. (''k'' @ dec i, entry_at 1700000300000)) [1..<100]"

definition svc_full :: BooksApiService where
  "svc_full = new_BooksApiService \<lparr> cache := cache_of_100 \<rparr>"

section \<open>Decimal notation is injective\<close>

lemma digit_char_inj: "a < 10 \<Longrightarrow> b < 10 \<Longrightarrow> digit_char a = digit_char b \<Longrightarrow> a = b"
proof -
  assume a: "a < 10" and b: "b < 10" and eq: "digit_char a = digit_char b"
  from eq have "(of_char (digit_char a) :: nat) = of_char (digit_char b)" by simp
  with a b show "a = b" by (simp add: digit_char_def)
qed

lemma digit_char_not_minus: "d < 10 \<Longrightarrow> digit_char d \<noteq> CHR ''-''"
proof
  assume d: "d < 10" and eq: "digit_char d = CHR ''-''"
  from eq have "(of_char (digit_char d) :: nat) = of_char (CHR ''-'')" by simp
  with d show False by (simp add: digit_char_def)
qed

lemma dec_not_Nil: "dec n \<noteq> []"
  by (subst dec.simps) simp

lemma dec_inj: "dec n = dec m \<Longrightarrow> n = m"
proof (induction n arbitrary: m rule: dec.induct)
  case (1 n)
  show ?case
  proof (cases "n < 10")
    case small_n: True
    show ?thesis
    proof (cases "m < 10")
      case True
      with small_n "1.prems" show ?thesis
        by (simp add: dec.simps [of n] dec.simps [of m] digit_char_inj)
    next
      case False
      with small_n "1.prems" dec_not_Nil [of "m div 10"] show ?thesis
        by (simp add: dec.simps [of n] dec.simps [of m])
    qed
  next
    case big_n: False
    show ?thesis
    proof (cases "m < 10")
      case True
      with big_n "1.prems" dec_not_Nil [of "n div 10"] show ?thesis
        by (simp add: dec.simps [of n] dec.simps [of m])
    next
      case False
      with big_n "1.prems" have hi: "dec (n div 10) = dec (m div 10)"
        and lo: "digit_char (n mod 10) = digit_char (m mod 10)"
        by (simp_all add: dec.simps [of n] dec.simps [of m])
      from "1.IH" [OF big_n hi] have "n div 10 = m div 10" .
      moreover from lo have "n mod 10 = m mod 10"
        by (intro digit_char_inj) simp_all
      ultimately show ?thesis
        by (metis div_mult_mod_eq)
    qed
  qed
qed

lemma hd_dec_not_minus: "hd (dec n) \<noteq> CHR ''-''"
proof (induction n rule: dec.induct)
  case (1 n)
  show ?case
  proof (cases "n < 10")
    case True
    then show ?thesis by (simp add: dec.simps [of n] digit_char_not_minus)
  next
    case False
    with "1.IH" dec_not_Nil [of "n div 10"] show ?thesis
      by (simp add: dec.simps [of n])
  qed
qed

lemma num_str_inj: "safe_int a \<Longrightarrow> safe_int b \<Longrightarrow> num_str a = num_str b \<Longrightarrow> a = b"
proof -
  assume safe: "safe_int a" "safe_int b" and eq: "num_str a = num_str b"
  have neg_pos: False if "CHR ''-'' # dec x = dec y" for x y
  proof -
    from that have "hd (dec y) = CHR ''-''" by (metis list.sel(1))
    with hd_dec_not_minus show False by blast
  qed
  show "a = b"
  proof (cases "a < 0"; cases "b < 0")
    assume "a < 0" "b < 0"
    with eq safe have "dec (nat (- a)) = dec (nat (- b))" by (simp add: num_str_def)
    then have "nat (- a) = nat (- b)" by (rule dec_inj)
    with \<open>a < 0\<close> \<open>b < 0\<close> show ?thesis by simp
  next
    assume "a < 0" "\<not> b < 0"
    with eq safe neg_pos show ?thesis by (auto simp: num_str_def)
  next
    assume "\<not> a < 0" "b < 0"
    with eq safe neg_pos [of "nat (- b)" "nat a"] show ?thesis by (auto simp: num_str_def)
  next
    assume "\<not> a < 0" "\<not> b < 0"
    with eq safe have "dec (nat a) = dec (nat b)" by (simp add: num_str_def)
    then have "nat a = nat b" by (rule dec_inj)
    with \<open>\<not> a < 0\<close> \<open>\<not> b < 0\<close> show ?thesis by simp
  qed
qed

section \<open>Facts about the normalisation\<close>

lemma sample_book_normalises: "transformBookData [] book_isbn10_first \<noteq> None"
  by code_simp

lemma transform_body_stamp:
  "transform_body t2 book = map_option (\<lambda>r. r\<lparr>transformedAt := t2\<rparr>) (transform_body t1 book)"
  by (simp add: transform_body_def Let_def split: option.splits)

lemma transform_body_isbn:
  assumes "transform_body stamp book = Some r"
  shows "isbn_of (industryIdentifiers_of book) = Some (isbn r)"
  using assms
  by (auto simp: transform_body_def Let_def split: option.splits)

lemma find_isbn_first:
  "find_isbn xs = Some found \<Longrightarrow> i < length xs \<Longrightarrow> is_isbn_id (xs ! i)
     \<Longrightarrow> \<forall>j<i. \<not> is_isbn_id (xs ! j) \<Longrightarrow> found = xs ! i \<and> found \<noteq> JUndef"
proof (induction xs arbitrary: i)
  case Nil
  then show ?case by simp
next
  case (Cons x xs)
  show ?case
  proof (cases i)
    case 0
    with Cons.prems show ?thesis
      by (auto simp: nullish_def split: if_splits)
  next
    case (Suc k)
    with Cons.prems have "\<not> is_isbn_id x" by auto
    with Cons.prems have rest: "find_isbn xs = Some found"
      by (simp split: if_splits)
    from Cons.prems Suc have "k < length xs" "is_isbn_id (xs ! k)" "\<forall>j<k. \<not> is_isbn_id (xs ! j)"
      by auto
    from Cons.IH [OF rest this] Suc show ?thesis by auto
  qed
qed

lemma find_isbn_none:
  "find_isbn xs = Some found \<Longrightarrow> \<forall>x\<in>set xs. \<not> is_isbn_id x \<Longrightarrow> found = JUndef"
  by (induction xs) (auto split: if_splits)

lemma map_Some_map_filter:
  "map Some (List.map_filter f xs) = filter (\<lambda>y. y \<noteq> None) (map f xs)"
  by (induction xs) (auto simp: List.map_filter_simps split: option.splits)

lemma map_enumerate_nth:
  "map (\<lambda>(j, b). g j b) (enumerate 0 bs) = map (\<lambda>j. g j (bs ! j)) [0..<length bs]"
  by (rule nth_equalityI) (simp_all add: nth_enumerate_eq)

lemma length_filter_neq_upt:
  "i < n \<Longrightarrow> length (filter (\<lambda>j. j \<noteq> i) [0..<n]) = n - 1"
proof -
  assume i: "i < n"
  have "length (filter (\<lambda>j. j \<noteq> i) [0..<n]) = card ({j. j \<noteq> i} \<inter> set [0..<n])"
    by (rule distinct_length_filter) simp
  also have "{j. j \<noteq> i} \<inter> set [0..<n] = {0..<n} - {i}" by auto
  also from i have "card ({0..<n} - {i}) = n - 1" by simp
  finally show ?thesis .
qed

section \<open>Facts about the cache and the requests\<close>

lemma map_of_Map_delete: "map_of (Map_delete k ps) k' = (if k' = k then None else map_of ps k')"
  by (induction ps) (auto simp: Map_delete_def)

lemma Map_delete_absent: "k \<notin> fst ` set ps \<Longrightarrow> Map_delete k ps = ps"
  by (induction ps) (auto simp: Map_delete_def)

lemma length_Map_delete:
  "distinct (map fst ps) \<Longrightarrow> map_of ps k = Some v \<Longrightarrow> Suc (length (Map_delete k ps)) = length ps"
proof (induction ps)
  case Nil
  then show ?case by simp
next
  case (Cons p ps)
  show ?case
  proof (cases "fst p = k")
    case True
    with Cons.prems have "k \<notin> fst ` set ps" by auto
    then have "Map_delete k ps = ps" by (rule Map_delete_absent)
    with True show ?thesis by (simp add: Map_delete_def)
  next
    case False
    with Cons.prems have "distinct (map fst ps)" "map_of ps k = Some v"
      by (auto split: if_splits)
    from Cons.IH [OF this] False show ?thesis by (simp add: Map_delete_def)
  qed
qed

text \<open>
  The keys of the cache stay distinct: the constructor starts from the empty cache, and the
  operations change the cache through \<open>isValidCache\<close> and \<open>setCache\<close> only.
\<close>

lemma keys_Map_set: "set (map fst (Map_set k v ps)) = insert k (set (map fst ps))"
  by (induction ps) auto

lemma distinct_Map_set: "distinct (map fst ps) \<Longrightarrow> distinct (map fst (Map_set k v ps))"
proof (induction ps)
  case Nil
  then show ?case by simp
next
  case (Cons p ps)
  then show ?case
    using keys_Map_set [of k v ps] by (cases "fst p = k") auto
qed

lemma distinct_isValidCache:
  "distinct (map fst (cache svc)) \<Longrightarrow> distinct (map fst (cache (snd (isValidCache now key svc))))"
  by (simp add: isValidCache_def Map_delete_def Let_def distinct_map_filter split: option.splits)

lemma distinct_setCache:
  "distinct (map fst (cache svc)) \<Longrightarrow> distinct (map fst (cache (setCache now now_sw key d svc)))"
  by (simp add: setCache_def clearOldCache_def Let_def distinct_Map_set distinct_map_filter)

lemma isValidCache_hit:
  assumes "isValidCache now key svc = (True, svc1)"
  shows "svc1 = svc \<and> (\<exists>e. map_of (cache svc) key = Some e \<and> now - timestamp e < cacheTimeout svc)"
  using assms by (auto simp: isValidCache_def Let_def split: option.splits if_splits)

lemma valid_query_not_empty: "\<not> length (trim s) < 2 \<Longrightarrow> s \<noteq> []"
  by (auto simp: trim_def)

text \<open>The paths of \<open>searchBooks\<close> after the key is derived.\<close>

lemma searchBooks_hit:
  assumes len: "\<not> length (trim s) < 2"
    and uc: "resolve_useCache options"
    and key: "search_cacheKey (trim s) (resolve_maxResults svc options) = Some key"
    and e: "map_of (cache svc) key = Some e"
    and fresh: "now_check env - timestamp e < cacheTimeout svc"
  shows "searchBooks env svc (JStr s) options
           = \<lparr> result = \<lparr> success = True, data = Some (cached_data e), totalItems = None,
                          fromCache = Some True, error = None \<rparr>,
               service = svc, calls = [] \<rparr>"
  using assms valid_query_not_empty [OF len]
  by (simp add: searchBooks_def isValidCache_def Let_def)

lemma searchBooks_miss:
  assumes len: "\<not> length (trim s) < 2"
    and key: "search_cacheKey (trim s) (resolve_maxResults svc options) = Some key"
    and v: "(if resolve_useCache options then isValidCache (now_check env) key svc
             else (False, svc)) = (valid, svc1)"
    and miss: "\<not> (resolve_useCache options \<and> valid)"
    and m: "makeRequest svc1 (fetch env) ''POST'' (endpoint_SEARCH svc1)
              (Some (JObj [(''query'', JStr (trim s)),
                           (''maxResults'', resolve_maxResults svc options)]))
            = (call, response)"
  shows "response = Inl err \<Longrightarrow>
           searchBooks env svc (JStr s) options
             = \<lparr> result = failure err, service = svc1, calls = [call] \<rparr>"
    and "response = Inr d \<Longrightarrow> nullish d \<Longrightarrow>
           searchBooks env svc (JStr s) options
             = \<lparr> result = failure msg_search_failed, service = svc1, calls = [call] \<rparr>"
    and "response = Inr d \<Longrightarrow> \<not> nullish d \<Longrightarrow>
           searchBooks env svc (JStr s) options
             = \<lparr> result =
                   \<lparr> success = True,
                     data = Some (BookList (transformBooksData (now_stamps env)
                                              (js_or (js_get d ''books'') (JArr [])))),
                     totalItems = Some (js_or (js_get d ''totalItems'')
                                    (JNum (int (length (transformBooksData (now_stamps env)
                                              (js_or (js_get d ''books'') (JArr []))))))),
                     fromCache = Some False, error = None \<rparr>,
                 service = (if resolve_useCache options
                            then setCache (now_store env) (now_sweep env) key
                                   (BookList (transformBooksData (now_stamps env)
                                                (js_or (js_get d ''books'') (JArr [])))) svc1
                            else svc1),
                 calls = [call] \<rparr>"
  using len key v miss m valid_query_not_empty [OF len]
  by (auto simp: searchBooks_def Let_def)

lemma getAllBooks_miss:
  assumes v: "(if useCache then isValidCache (now_check env) ''all_books'' svc
               else (False, svc)) = (valid, svc1)"
    and miss: "\<not> (useCache \<and> valid)"
    and m: "makeRequest svc1 (fetch env) ''GET'' (endpoint_GET_ALL svc1) None = (call, response)"
  shows "response = Inl err \<Longrightarrow>
           getAllBooks env svc useCache
             = \<lparr> result = failure err, service = svc1, calls = [call] \<rparr>"
    and "response = Inr d \<Longrightarrow> nullish d \<Longrightarrow>
           getAllBooks env svc useCache
             = \<lparr> result = failure msg_catalog_failed, service = svc1, calls = [call] \<rparr>"
    and "response = Inr d \<Longrightarrow> \<not> nullish d \<Longrightarrow>
           getAllBooks env svc useCache
             = \<lparr> result =
                   \<lparr> success = True,
                     data = Some (BookList (transformBooksData (now_stamps env)
                                              (js_or (js_get d ''books'') (JArr [])))),
                     totalItems = None, fromCache = Some False, error = None \<rparr>,
                 service = (if useCache
                            then setCache (now_store env) (now_sweep env) ''all_books''
                                   (BookList (transformBooksData (now_stamps env)
                                                (js_or (js_get d ''books'') (JArr [])))) svc1
                            else svc1),
                 calls = [call] \<rparr>"
  using v miss m
  by (auto simp: getAllBooks_def Let_def)

lemma getBookDetails_miss:
  assumes t: "truthy book_id"
    and idt: "js_toString book_id = Some idText"
    and v: "(if useCache then isValidCache (now_check env) (''book_'' @ idText) svc
             else (False, svc)) = (valid, svc1)"
    and miss: "\<not> (useCache \<and> valid)"
    and m: "makeRequest svc1 (fetch env) ''GET'' (endpoint_GET_BOOK svc1 @ ''/'' @ idText) None
            = (call, response)"
  shows "response = Inl err \<Longrightarrow>
           getBookDetails env svc book_id useCache
             = \<lparr> result = failure err, service = svc1, calls = [call] \<rparr>"
    and "response = Inr d \<Longrightarrow>
           getBookDetails env svc book_id useCache
             = \<lparr> result =
                   \<lparr> success = True,
                     data = Some (BookItem (transformBookData (now_stamps env 0) d)),
                     totalItems = None, fromCache = Some False, error = None \<rparr>,
                 service = (if useCache
                            then setCache (now_store env) (now_sweep env) (''book_'' @ idText)
                                   (BookItem (transformBookData (now_stamps env 0) d)) svc1
                            else svc1),
                 calls = [call] \<rparr>"
  using t idt v miss m
  by (auto simp: getBookDetails_def Let_def)

lemma makeRequest_Inr:
  "makeRequest svc fetch_fn method endpoint b = (call, Inr d)
     \<Longrightarrow> \<exists>status statusText. fetch_fn call = FetchResponse status statusText (Some d)"
  by (auto simp: makeRequest_def Let_def split: FetchOutcome.splits if_splits option.splits)

lemma isValidCache_expired:
  "expired_at now svc key \<Longrightarrow> isValidCache now key svc = (False, without_entry key svc)"
  by (simp add: expired_at_def isValidCache_def without_entry_def split: option.splits)

lemma without_entry_gone: "map_of (cache (without_entry key svc)) key = None"
  by (simp add: without_entry_def map_of_Map_delete)

lemma without_entry_count:
  "distinct (map fst (cache svc)) \<Longrightarrow> expired_at now svc key
     \<Longrightarrow> Suc (entries (getCacheStats (without_entry key svc))) = entries (getCacheStats svc)"
  by (auto simp: expired_at_def without_entry_def getCacheStats_def
           split: option.splits intro: length_Map_delete)

lemma map_of_Map_set: "map_of (Map_set k v ps) k' = (if k' = k then Some v else map_of ps k')"
  by (induction ps) auto

lemma length_Map_set_new: "k \<notin> fst ` set ps \<Longrightarrow> length (Map_set k v ps) = Suc (length ps)"
  by (induction ps) auto

lemma map_of_filter_keeps:
  "map_of ps k = Some e \<Longrightarrow> P (k, e) \<Longrightarrow> map_of (filter P ps) k = Some e"
  by (induction ps) (auto split: if_splits)

lemma transformBooksData_no_array:
  "\<forall>bs. v \<noteq> JArr bs \<Longrightarrow> transformBooksData stamps (js_or v (JArr [])) = []"
  by (cases v) (simp_all add: transformBooksData_def js_or_def List.map_filter_simps)

lemma makeRequest_2xx:
  assumes "\<forall>c. fetch_fn c = FetchResponse status statusText (Some body)"
    and "200 \<le> status" and "status \<le> 299"
    and "makeRequest svc fetch_fn method endpoint b = (call, response)"
  shows "response = Inr body"
  using assms by (auto simp: makeRequest_def Let_def)

lemma resolve_maxResults_cache [simp]:
  "resolve_maxResults (svc\<lparr>cache := c\<rparr>) options = resolve_maxResults svc options"
  by (simp add: resolve_maxResults_def split: option.splits)

text \<open>An operation that reads an expired entry.\<close>

lemma searchBooks_expired:
  assumes len: "\<not> length (trim s) < 2"
    and uc: "resolve_useCache options"
    and key: "search_cacheKey (trim s) (resolve_maxResults svc options) = Some key"
    and exp: "expired_at (now_check env) svc key"
  shows "let run = searchBooks env svc (JStr s) options in
           run = searchBooks env (without_entry key svc) (JStr s) options
         \<and> length (calls run) = 1
         \<and> fromCache (result run) \<noteq> Some True
         \<and> (if success (result run)
            then \<exists>status statusText d.
                   fetch env (hd (calls run)) = FetchResponse status statusText (Some d)
                 \<and> data (result run)
                     = Some (BookList (transformBooksData (now_stamps env)
                                         (js_or (js_get d ''books'') (JArr []))))
                 \<and> service run
                     = setCache (now_store env) (now_sweep env) key
                         (BookList (transformBooksData (now_stamps env)
                                      (js_or (js_get d ''books'') (JArr []))))
                         (without_entry key svc)
            else data (result run) = None \<and> service run = without_entry key svc)"
proof -
  let ?del = "without_entry key svc"
  have v: "(if resolve_useCache options then isValidCache (now_check env) key svc
            else (False, svc)) = (False, ?del)"
    using uc isValidCache_expired [OF exp] by simp
  have vdel: "(if resolve_useCache options then isValidCache (now_check env) key ?del
            else (False, ?del)) = (False, ?del)"
    using uc by (simp add: isValidCache_def without_entry_gone)
  have keydel: "search_cacheKey (trim s) (resolve_maxResults ?del options) = Some key"
    using key by (simp add: without_entry_def)
  have miss: "\<not> (resolve_useCache options \<and> False)" by simp
  obtain call response
    where m: "makeRequest ?del (fetch env) ''POST'' (endpoint_SEARCH ?del)
              (Some (JObj [(''query'', JStr (trim s)),
                           (''maxResults'', resolve_maxResults svc options)]))
            = (call, response)"
    by (cases "makeRequest ?del (fetch env) ''POST'' (endpoint_SEARCH ?del)
              (Some (JObj [(''query'', JStr (trim s)),
                           (''maxResults'', resolve_maxResults svc options)]))")
  then have mdel: "makeRequest ?del (fetch env) ''POST'' (endpoint_SEARCH ?del)
              (Some (JObj [(''query'', JStr (trim s)),
                           (''maxResults'', resolve_maxResults ?del options)]))
            = (call, response)"
    by (simp add: without_entry_def)
  note run = searchBooks_miss [OF len key v miss m]
  note run_del = searchBooks_miss [OF len keydel vdel miss mdel]
  show ?thesis
  proof (cases response)
    case (Inl err)
    from run(1) [OF Inl] run_del(1) [OF Inl] show ?thesis
      by (simp add: Let_def failure_def)
  next
    case (Inr d)
    show ?thesis
    proof (cases "nullish d")
      case True
      from run(2) [OF Inr True] run_del(2) [OF Inr True] show ?thesis
        by (simp add: Let_def failure_def)
    next
      case False
      from m Inr obtain status statusText
        where "fetch env call = FetchResponse status statusText (Some d)"
        by (auto dest: makeRequest_Inr)
      with run(3) [OF Inr False] run_del(3) [OF Inr False] uc show ?thesis
        by (simp add: Let_def)
    qed
  qed
qed

lemma getAllBooks_expired:
  assumes exp: "expired_at (now_check env) svc ''all_books''"
  shows "let run = getAllBooks env svc True in
           run = getAllBooks env (without_entry ''all_books'' svc) True
         \<and> length (calls run) = 1
         \<and> fromCache (result run) \<noteq> Some True
         \<and> (if success (result run)
            then \<exists>status statusText d.
                   fetch env (hd (calls run)) = FetchResponse status statusText (Some d)
                 \<and> data (result run)
                     = Some (BookList (transformBooksData (now_stamps env)
                                         (js_or (js_get d ''books'') (JArr []))))
                 \<and> service run
                     = setCache (now_store env) (now_sweep env) ''all_books''
                         (BookList (transformBooksData (now_stamps env)
                                      (js_or (js_get d ''books'') (JArr []))))
                         (without_entry ''all_books'' svc)
            else data (result run) = None \<and> service run = without_entry ''all_books'' svc)"
proof -
  let ?del = "without_entry ''all_books'' svc"
  have v: "(if True then isValidCache (now_check env) ''all_books'' svc
            else (False, svc)) = (False, ?del)"
    using isValidCache_expired [OF exp] by simp
  have vdel: "(if True then isValidCache (now_check env) ''all_books'' ?del
            else (False, ?del)) = (False, ?del)"
    by (simp add: isValidCache_def without_entry_gone)
  have miss: "\<not> (True \<and> False)" by simp
  obtain call response
    where m: "makeRequest ?del (fetch env) ''GET'' (endpoint_GET_ALL ?del) None = (call, response)"
    by (cases "makeRequest ?del (fetch env) ''GET'' (endpoint_GET_ALL ?del) None")
  note run = getAllBooks_miss [OF v miss m]
  note run_del = getAllBooks_miss [OF vdel miss m]
  show ?thesis
  proof (cases response)
    case (Inl err)
    from run(1) [OF Inl] run_del(1) [OF Inl] show ?thesis
      by (simp add: Let_def failure_def)
  next
    case (Inr d)
    show ?thesis
    proof (cases "nullish d")
      case True
      from run(2) [OF Inr True] run_del(2) [OF Inr True] show ?thesis
        by (simp add: Let_def failure_def)
    next
      case False
      from m Inr obtain status statusText
        where "fetch env call = FetchResponse status statusText (Some d)"
        by (auto dest: makeRequest_Inr)
      with run(3) [OF Inr False] run_del(3) [OF Inr False] show ?thesis
        by (simp add: Let_def)
    qed
  qed
qed

lemma getBookDetails_expired:
  assumes t: "truthy book_id"
    and idt: "js_toString book_id = Some idText"
    and exp: "expired_at (now_check env) svc (''book_'' @ idText)"
  shows "let run = getBookDetails env svc book_id True in
           run = getBookDetails env (without_entry (''book_'' @ idText) svc) book_id True
         \<and> length (calls run) = 1
         \<and> fromCache (result run) \<noteq> Some True
         \<and> (if success (result run)
            then \<exists>status statusText d.
                   fetch env (hd (calls run)) = FetchResponse status statusText (Some d)
                 \<and> data (result run) = Some (BookItem (transformBookData (now_stamps env 0) d))
                 \<and> service run
                     = setCache (now_store env) (now_sweep env) (''book_'' @ idText)
                         (BookItem (transformBookData (now_stamps env 0) d))
                         (without_entry (''book_'' @ idText) svc)
            else data (result run) = None
               \<and> service run = without_entry (''book_'' @ idText) svc)"
proof -
  let ?key = "''book_'' @ idText"
  let ?del = "without_entry ?key svc"
  have v: "(if True then isValidCache (now_check env) ?key svc
            else (False, svc)) = (False, ?del)"
    using isValidCache_expired [OF exp] by simp
  have vdel: "(if True then isValidCache (now_check env) ?key ?del
            else (False, ?del)) = (False, ?del)"
    by (simp add: isValidCache_def without_entry_gone)
  have miss: "\<not> (True \<and> False)" by simp
  obtain call response
    where m: "makeRequest ?del (fetch env) ''GET'' (endpoint_GET_BOOK ?del @ ''/'' @ idText) None
              = (call, response)"
    by (cases "makeRequest ?del (fetch env) ''GET'' (endpoint_GET_BOOK ?del @ ''/'' @ idText) None")
  note run = getBookDetails_miss [OF t idt v miss m]
  note run_del = getBookDetails_miss [OF t idt vdel miss m]
  show ?thesis
  proof (cases response)
    case (Inl err)
    from run(1) [OF Inl] run_del(1) [OF Inl] show ?thesis
      by (simp add: Let_def failure_def)
  next
    case (Inr d)
    from m Inr obtain status statusText
      where "fetch env call = FetchResponse status statusText (Some d)"
      by (auto dest: makeRequest_Inr)
    with run(2) [OF Inr] run_del(2) [OF Inr] show ?thesis
      by (simp add: Let_def)
  qed
qed

text \<open>The first search on an empty cache, answered by the network with a body.\<close>

lemma searchBooks_first:
  assumes resp: "\<forall>c. fetch env c = FetchResponse status statusText (Some body)"
    and ok: "200 \<le> status" "status \<le> 299"
    and nonnull: "\<not> nullish body"
    and empty: "cache svc = []"
    and len: "\<not> length (trim s) < 2"
    and uc: "resolve_useCache options"
    and key: "search_cacheKey (trim s) (resolve_maxResults svc options) = Some key"
  shows "\<exists>call. searchBooks env svc (JStr s) options
           = \<lparr> result =
                 \<lparr> success = True,
                   data = Some (BookList (transformBooksData (now_stamps env)
                                            (js_or (js_get body ''books'') (JArr [])))),
                   totalItems = Some (js_or (js_get body ''totalItems'')
                                  (JNum (int (length (transformBooksData (now_stamps env)
                                            (js_or (js_get body ''books'') (JArr []))))))),
                   fromCache = Some False, error = None \<rparr>,
               service = svc\<lparr>cache :=
                 [(key, \<lparr> cached_data = BookList (transformBooksData (now_stamps env)
                                                    (js_or (js_get body ''books'') (JArr []))),
                          timestamp = now_store env \<rparr>)]\<rparr>,
               calls = [call] \<rparr>"
proof -
  have v: "(if resolve_useCache options then isValidCache (now_check env) key svc
            else (False, svc)) = (False, svc)"
    using empty by (simp add: isValidCache_def)
  have miss: "\<not> (resolve_useCache options \<and> False)" by simp
  obtain call response
    where m: "makeRequest svc (fetch env) ''POST'' (endpoint_SEARCH svc)
              (Some (JObj [(''query'', JStr (trim s)),
                           (''maxResults'', resolve_maxResults svc options)]))
            = (call, response)"
    by (cases "makeRequest svc (fetch env) ''POST'' (endpoint_SEARCH svc)
              (Some (JObj [(''query'', JStr (trim s)),
                           (''maxResults'', resolve_maxResults svc options)]))")
  from makeRequest_2xx [OF resp ok m] have r: "response = Inr body" .
  from searchBooks_miss(3) [OF len key v miss m r nonnull] uc empty show ?thesis
    by (simp add: setCache_def Let_def)
qed

text \<open>Where the data of a result comes from.\<close>

lemma getAllBooks_hit:
  assumes e: "map_of (cache svc) ''all_books'' = Some e"
    and fresh: "now_check env - timestamp e < cacheTimeout svc"
  shows "getAllBooks env svc True
           = \<lparr> result = \<lparr> success = True, data = Some (cached_data e), totalItems = None,
                          fromCache = Some True, error = None \<rparr>,
               service = svc, calls = [] \<rparr>"
  using assms by (simp add: getAllBooks_def isValidCache_def Let_def)

lemma getBookDetails_hit:
  assumes t: "truthy book_id"
    and idt: "js_toString book_id = Some idText"
    and e: "map_of (cache svc) (''book_'' @ idText) = Some e"
    and fresh: "now_check env - timestamp e < cacheTimeout svc"
  shows "getBookDetails env svc book_id True
           = \<lparr> result = \<lparr> success = True, data = Some (cached_data e), totalItems = None,
                          fromCache = Some True, error = None \<rparr>,
               service = svc, calls = [] \<rparr>"
  using assms by (simp add: getBookDetails_def isValidCache_def Let_def)

lemma searchBooks_provenance:
  "let run = searchBooks env svc query options in
     (\<not> success (result run) \<and> data (result run) = None \<and> fromCache (result run) = None)
   \<or> (success (result run) \<and> fromCache (result run) = Some True \<and> calls run = []
      \<and> (\<exists>s key e. query = JStr s
            \<and> search_cacheKey (trim s) (resolve_maxResults svc options) = Some key
            \<and> map_of (cache svc) key = Some e
            \<and> now_check env - timestamp e < cacheTimeout svc
            \<and> data (result run) = Some (cached_data e)))
   \<or> (success (result run) \<and> fromCache (result run) = Some False
      \<and> (\<exists>call status statusText d. calls run = [call]
            \<and> fetch env call = FetchResponse status statusText (Some d)
            \<and> data (result run)
                = Some (BookList (transformBooksData (now_stamps env)
                                    (js_or (js_get d ''books'') (JArr []))))))"
proof (cases query)
  case (JStr s)
  show ?thesis
  proof (cases "length (trim s) < 2")
    case True
    with JStr show ?thesis
      by (simp add: searchBooks_def failure_def Let_def)
  next
    case len: False
    note ne = valid_query_not_empty [OF len]
    show ?thesis
    proof (cases "search_cacheKey (trim s) (resolve_maxResults svc options)")
      case None
      with JStr len ne show ?thesis
        by (simp add: searchBooks_def failure_def Let_def)
    next
      case (Some key)
      obtain valid svc1
        where v: "(if resolve_useCache options then isValidCache (now_check env) key svc
                   else (False, svc)) = (valid, svc1)"
        by (cases "if resolve_useCache options then isValidCache (now_check env) key svc
                   else (False, svc)")
      show ?thesis
      proof (cases "resolve_useCache options \<and> valid")
        case True
        with v have "isValidCache (now_check env) key svc = (True, svc1)" by simp
        from isValidCache_hit [OF this] obtain e
          where e: "map_of (cache svc) key = Some e"
            and fresh: "now_check env - timestamp e < cacheTimeout svc"
          by blast
        from True have uc: "resolve_useCache options" by simp
        from searchBooks_hit [OF len uc Some e fresh] JStr Some e fresh show ?thesis
          by (simp add: Let_def)
      next
        case miss: False
        obtain call response
          where m: "makeRequest svc1 (fetch env) ''POST'' (endpoint_SEARCH svc1)
                    (Some (JObj [(''query'', JStr (trim s)),
                                 (''maxResults'', resolve_maxResults svc options)]))
                  = (call, response)"
          by (cases "makeRequest svc1 (fetch env) ''POST'' (endpoint_SEARCH svc1)
                    (Some (JObj [(''query'', JStr (trim s)),
                                 (''maxResults'', resolve_maxResults svc options)]))")
        note run = searchBooks_miss [OF len Some v miss m]
        show ?thesis
        proof (cases response)
          case (Inl err)
          from run(1) [OF Inl] JStr show ?thesis
            by (simp add: Let_def failure_def)
        next
          case (Inr d)
          show ?thesis
          proof (cases "nullish d")
            case True
            from run(2) [OF Inr True] JStr show ?thesis
              by (simp add: Let_def failure_def)
          next
            case False
            from m Inr obtain status statusText
              where "fetch env call = FetchResponse status statusText (Some d)"
              by (auto dest: makeRequest_Inr)
            with run(3) [OF Inr False] JStr show ?thesis
              by (simp add: Let_def)
          qed
        qed
      qed
    qed
  qed
qed (auto simp: searchBooks_def failure_def Let_def)

lemma getAllBooks_provenance:
  "let run = getAllBooks env svc useCache in
     (\<not> success (result run) \<and> data (result run) = None \<and> fromCache (result run) = None)
   \<or> (success (result run) \<and> fromCache (result run) = Some True \<and> calls run = []
      \<and> (\<exists>e. map_of (cache svc) ''all_books'' = Some e
            \<and> now_check env - timestamp e < cacheTimeout svc
            \<and> data (result run) = Some (cached_data e)))
   \<or> (success (result run) \<and> fromCache (result run) = Some False
      \<and> (\<exists>call status statusText d. calls run = [call]
            \<and> fetch env call = FetchResponse status statusText (Some d)
            \<and> data (result run)
                = Some (BookList (transformBooksData (now_stamps env)
                                    (js_or (js_get d ''books'') (JArr []))))))"
proof -
  obtain valid svc1
    where v: "(if useCache then isValidCache (now_check env) ''all_books'' svc
               else (False, svc)) = (valid, svc1)"
    by (cases "if useCache then isValidCache (now_check env) ''all_books'' svc
               else (False, svc)")
  show ?thesis
  proof (cases "useCache \<and> valid")
    case True
    with v have "isValidCache (now_check env) ''all_books'' svc = (True, svc1)" by simp
    from isValidCache_hit [OF this] obtain e
      where e: "map_of (cache svc) ''all_books'' = Some e"
        and fresh: "now_check env - timestamp e < cacheTimeout svc"
      by blast
    from True have uc: "useCache = True" by simp
    from getAllBooks_hit [OF e fresh] e fresh uc show ?thesis
      by (simp add: Let_def)
  next
    case miss: False
    obtain call response
      where m: "makeRequest svc1 (fetch env) ''GET'' (endpoint_GET_ALL svc1) None
                = (call, response)"
      by (cases "makeRequest svc1 (fetch env) ''GET'' (endpoint_GET_ALL svc1) None")
    note run = getAllBooks_miss [OF v miss m]
    show ?thesis
    proof (cases response)
      case (Inl err)
      from run(1) [OF Inl] show ?thesis
        by (simp add: Let_def failure_def)
    next
      case (Inr d)
      show ?thesis
      proof (cases "nullish d")
        case True
        from run(2) [OF Inr True] show ?thesis
          by (simp add: Let_def failure_def)
      next
        case False
        from m Inr obtain status statusText
          where "fetch env call = FetchResponse status statusText (Some d)"
          by (auto dest: makeRequest_Inr)
        with run(3) [OF Inr False] show ?thesis
          by (simp add: Let_def)
      qed
    qed
  qed
qed

lemma getBookDetails_provenance:
  "let run = getBookDetails env svc book_id useCache in
     (\<not> success (result run) \<and> data (result run) = None \<and> fromCache (result run) = None)
   \<or> (success (result run) \<and> fromCache (result run) = Some True \<and> calls run = []
      \<and> (\<exists>idText e. js_toString book_id = Some idText
            \<and> map_of (cache svc) (''book_'' @ idText) = Some e
            \<and> now_check env - timestamp e < cacheTimeout svc
            \<and> data (result run) = Some (cached_data e)))
   \<or> (success (result run) \<and> fromCache (result run) = Some False
      \<and> (\<exists>call status statusText d. calls run = [call]
            \<and> fetch env call = FetchResponse status statusText (Some d)
            \<and> data (result run) = Some (BookItem (transformBookData (now_stamps env 0) d))))"
proof (cases "truthy book_id")
  case False
  then show ?thesis
    by (simp add: getBookDetails_def failure_def Let_def)
next
  case t: True
  show ?thesis
  proof (cases "js_toString book_id")
    case None
    with t show ?thesis
      by (simp add: getBookDetails_def failure_def Let_def)
  next
    case (Some idText)
    let ?key = "''book_'' @ idText"
    obtain valid svc1
      where v: "(if useCache then isValidCache (now_check env) ?key svc
                 else (False, svc)) = (valid, svc1)"
      by (cases "if useCache then isValidCache (now_check env) ?key svc
                 else (False, svc)")
    show ?thesis
    proof (cases "useCache \<and> valid")
      case True
      with v have "isValidCache (now_check env) ?key svc = (True, svc1)" by simp
      from isValidCache_hit [OF this] obtain e
        where e: "map_of (cache svc) ?key = Some e"
          and fresh: "now_check env - timestamp e < cacheTimeout svc"
        by blast
      from True have uc: "useCache = True" by simp
      from getBookDetails_hit [OF t Some e fresh] Some e fresh uc show ?thesis
        by (simp add: Let_def)
    next
      case miss: False
      obtain call response
        where m: "makeRequest svc1 (fetch env) ''GET'' (endpoint_GET_BOOK svc1 @ ''/'' @ idText) None
                  = (call, response)"
        by (cases "makeRequest svc1 (fetch env) ''GET'' (endpoint_GET_BOOK svc1 @ ''/'' @ idText) None")
      note run = getBookDetails_miss [OF t Some v miss m]
      show ?thesis
      proof (cases response)
        case (Inl err)
        from run(1) [OF Inl] show ?thesis
          by (simp add: Let_def failure_def)
      next
        case (Inr d)
        from m Inr obtain status statusText
          where "fetch env call = FetchResponse status statusText (Some d)"
          by (auto dest: makeRequest_Inr)
        with run(2) [OF Inr] show ?thesis
          by (simp add: Let_def)
      qed
    qed
  qed
qed

section \<open>The claims\<close>

subsection \<open>C1: cache key of a search\<close>

text \<open>
  C1, as stated, fails twice. \<open>searchBooks\<close> trims the query but does not fold its case: the
  queries \<open>Dune\<close> and \<open>dune\<close>, equal after trimming and case normalisation and sent with the
  same result-size bound, get different keys, and a search for \<open>dune\<close> one minute after a
  search for \<open>Dune\<close> is not answered from the cache. And the key holds the string form of
  \<open>maxResults\<close>, whatever its type: the requests with \<open>maxResults\<close> 5 and \<open>maxResults\<close>
  \<open>"5"\<close> differ only in \<open>maxResults\<close> and get the same key, so the second is answered from
  the entry of the first.
\<close>

theorem search_key_is_case_sensitive:
  "spec_normalize_query ''Dune'' = spec_normalize_query ''dune''
   \<and> resolve_maxResults new_BooksApiService options5 = JNum 5
   \<and> search_cacheKey (trim ''Dune'') (resolve_maxResults new_BooksApiService options5)
       \<noteq> search_cacheKey (trim ''dune'') (resolve_maxResults new_BooksApiService options5)
   \<and> fromCache (result (searchBooks (one_minute_later (respond body_one_book))
        (service (searchBooks (respond body_one_book) new_BooksApiService (JStr ''Dune'') options5))
        (JStr ''dune'') options5)) = Some False
   \<and> search_cacheKey (trim ''dune'') (resolve_maxResults new_BooksApiService (options_with (JNum 5)))
       = search_cacheKey (trim ''dune'')
           (resolve_maxResults new_BooksApiService (options_with (JStr ''5'')))
   \<and> fromCache (result (searchBooks (one_minute_later (respond body_one_book))
        (service (searchBooks (respond body_one_book) new_BooksApiService (JStr ''dune'')
                   (options_with (JNum 5))))
        (JStr ''dune'') (options_with (JStr ''5'')))) = Some True"
  by code_simp

text \<open>
  C1, amended: the key that \<open>searchBooks\<close> derives is \<open>search_\<close>, the trimmed query, \<open>_\<close>
  and the string form of the result-size bound (\<open>maxResults\<close> of the options, or the
  service's default when the options give none): it is the one key in the cache after a
  first search that the network answers. Two search requests whose queries are equal after
  trimming and whose bounds are equal get the same key: the second, sent while the entry
  is younger than the time-to-live, is answered from the entry of the first with no request.
  Two requests that differ only in the bound, both bounds being integers (safe integers),
  get different keys: the second is not answered from the entry of the first and sends a
  request.
\<close>

theorem searchBooks_key_is_trimmed_query_and_bound:
  assumes resp: "\<forall>c. fetch env c = FetchResponse status statusText (Some body)"
    and ok: "200 \<le> status" "status \<le> 299"
    and nonnull: "\<not> nullish body"
    and empty: "cache svc = []"
    and len1: "\<not> length (trim q1) < 2"
    and len2: "\<not> length (trim q2) < 2"
    and uc1: "resolve_useCache o1"
    and uc2: "resolve_useCache o2"
    and text1: "js_toString (resolve_maxResults svc o1) = Some text1"
    and young: "now_check env2 - now_store env < cacheTimeout svc"
  shows "map fst (cache (service (searchBooks env svc (JStr q1) o1)))
           = [''search_'' @ trim q1 @ ''_'' @ text1]
       \<and> (trim q2 = trim q1 \<and> resolve_maxResults svc o2 = resolve_maxResults svc o1
            \<longrightarrow> (let second = searchBooks env2 (service (searchBooks env svc (JStr q1) o1))
                                 (JStr q2) o2 in
                   fromCache (result second) = Some True
                 \<and> data (result second) = data (result (searchBooks env svc (JStr q1) o1))
                 \<and> calls second = []))
       \<and> (q2 = q1
            \<and> (\<exists>m1 m2. resolve_maxResults svc o1 = JNum m1 \<and> resolve_maxResults svc o2 = JNum m2
                  \<and> safe_int m1 \<and> safe_int m2 \<and> m1 \<noteq> m2)
            \<longrightarrow> search_cacheKey (trim q1) (resolve_maxResults svc o1)
                  \<noteq> search_cacheKey (trim q2) (resolve_maxResults svc o2)
              \<and> (let second = searchBooks env2 (service (searchBooks env svc (JStr q1) o1))
                                 (JStr q2) o2 in
                   fromCache (result second) \<noteq> Some True
                 \<and> length (calls second) = 1))"
proof -
  let ?key = "''search_'' @ trim q1 @ ''_'' @ text1"
  let ?tb = "transformBooksData (now_stamps env) (js_or (js_get body ''books'') (JArr []))"
  let ?entry = "\<lparr> cached_data = BookList ?tb, timestamp = now_store env \<rparr>"
  let ?svc' = "svc\<lparr>cache := [(?key, ?entry)]\<rparr>"
  from text1 have key1: "search_cacheKey (trim q1) (resolve_maxResults svc o1) = Some ?key"
    by (simp add: search_cacheKey_def)
  from searchBooks_first [OF resp ok nonnull empty len1 uc1 key1]
  have state: "service (searchBooks env svc (JStr q1) o1) = ?svc'"
    and first_data: "data (result (searchBooks env svc (JStr q1) o1)) = Some (BookList ?tb)"
    by auto
  have stored: "map fst (cache (service (searchBooks env svc (JStr q1) o1))) = [?key]"
    by (simp add: state)
  have same: "fromCache (result (searchBooks env2 ?svc' (JStr q2) o2)) = Some True
      \<and> data (result (searchBooks env2 ?svc' (JStr q2) o2)) = Some (BookList ?tb)
      \<and> calls (searchBooks env2 ?svc' (JStr q2) o2) = []"
    if eq: "trim q2 = trim q1" "resolve_maxResults svc o2 = resolve_maxResults svc o1"
  proof -
    from key1 eq have key2: "search_cacheKey (trim q2) (resolve_maxResults ?svc' o2) = Some ?key"
      by simp
    have e: "map_of (cache ?svc') ?key = Some ?entry" by simp
    from young have fresh: "now_check env2 - timestamp ?entry < cacheTimeout ?svc'" by simp
    from searchBooks_hit [OF len2 uc2 key2 e fresh] show ?thesis by simp
  qed
  have differ: "search_cacheKey (trim q1) (resolve_maxResults svc o1)
                  \<noteq> search_cacheKey (trim q1) (resolve_maxResults svc o2)
      \<and> fromCache (result (searchBooks env2 ?svc' (JStr q1) o2)) \<noteq> Some True
      \<and> length (calls (searchBooks env2 ?svc' (JStr q1) o2)) = 1"
    if b: "resolve_maxResults svc o1 = JNum m1" "resolve_maxResults svc o2 = JNum m2"
      and safe: "safe_int m1" "safe_int m2" and ne: "m1 \<noteq> m2" for m1 m2
  proof -
    from text1 b have t1: "text1 = num_str m1" by simp
    let ?key2 = "''search_'' @ trim q1 @ ''_'' @ num_str m2"
    from b have key2: "search_cacheKey (trim q1) (resolve_maxResults ?svc' o2) = Some ?key2"
      by (simp add: search_cacheKey_def)
    from safe ne have "num_str m1 \<noteq> num_str m2" by (blast dest: num_str_inj)
    with t1 have keys: "?key2 \<noteq> ?key" by simp
    with key1 b have k: "search_cacheKey (trim q1) (resolve_maxResults svc o1)
                  \<noteq> search_cacheKey (trim q1) (resolve_maxResults svc o2)"
      by (simp add: search_cacheKey_def)
    from keys have v: "(if resolve_useCache o2 then isValidCache (now_check env2) ?key2 ?svc'
            else (False, ?svc')) = (False, ?svc')"
      by (simp add: isValidCache_def)
    have miss: "\<not> (resolve_useCache o2 \<and> False)" by simp
    obtain call response
      where m: "makeRequest ?svc' (fetch env2) ''POST'' (endpoint_SEARCH ?svc')
              (Some (JObj [(''query'', JStr (trim q1)),
                           (''maxResults'', resolve_maxResults ?svc' o2)]))
            = (call, response)"
      by (cases "makeRequest ?svc' (fetch env2) ''POST'' (endpoint_SEARCH ?svc')
              (Some (JObj [(''query'', JStr (trim q1)),
                           (''maxResults'', resolve_maxResults ?svc' o2)]))")
    note run = searchBooks_miss [OF len1 key2 v miss m]
    have "fromCache (result (searchBooks env2 ?svc' (JStr q1) o2)) \<noteq> Some True
      \<and> length (calls (searchBooks env2 ?svc' (JStr q1) o2)) = 1"
    proof (cases response)
      case (Inl err)
      from run(1) [OF Inl] show ?thesis by (simp add: failure_def)
    next
      case (Inr d)
      then show ?thesis
        using run(2) [OF Inr] run(3) [OF Inr] by (cases "nullish d") (simp_all add: failure_def)
    qed
    with k show ?thesis by blast
  qed
  from stored same differ first_data show ?thesis
    by (auto simp: Let_def state)
qed

theorem searchBooks_key_is_trimmed_query_and_bound_witness:
  "map fst (cache (service (searchBooks (respond body_one_book) new_BooksApiService
                             (JStr ''  dune '') options5)))
     = [''search_dune_5'']
   \<and> fromCache (result (searchBooks (one_minute_later (respond body_one_book))
        (service (searchBooks (respond body_one_book) new_BooksApiService (JStr ''  dune '') options5))
        (JStr ''dune'') options5)) = Some True
   \<and> calls (searchBooks (one_minute_later (respond body_one_book))
        (service (searchBooks (respond body_one_book) new_BooksApiService (JStr ''  dune '') options5))
        (JStr ''dune'') options5) = []
   \<and> fromCache (result (searchBooks (one_minute_later (respond body_one_book))
        (service (searchBooks (respond body_one_book) new_BooksApiService (JStr ''  dune '') options5))
        (JStr ''  dune '') (options_with (JNum 10)))) \<noteq> Some True
   \<and> length (calls (searchBooks (one_minute_later (respond body_one_book))
        (service (searchBooks (respond body_one_book) new_BooksApiService (JStr ''  dune '') options5))
        (JStr ''  dune '') (options_with (JNum 10)))) = 1"
proof -
  let ?env = "respond body_one_book"
  let ?env2 = "one_minute_later (respond body_one_book)"
  let ?svc = new_BooksApiService
  have resp: "\<forall>c. fetch ?env c = FetchResponse 200 ''OK'' (Some body_one_book)"
    by (simp add: respond_def)
  have ok: "200 \<le> (200::nat)" "(200::nat) \<le> 299" by simp_all
  have nonnull: "\<not> nullish body_one_book" by code_simp
  have empty: "cache ?svc = []" by code_simp
  have len1: "\<not> length (trim ''  dune '') < 2" by code_simp
  have len2: "\<not> length (trim ''dune'') < 2" by code_simp
  have uc5: "resolve_useCache options5" by code_simp
  have uc10: "resolve_useCache (options_with (JNum 10))" by code_simp
  have text1: "js_toString (resolve_maxResults ?svc options5) = Some ''5''" by code_simp
  have young: "now_check ?env2 - now_store ?env < cacheTimeout ?svc" by code_simp
  have trims: "trim ''dune'' = trim ''  dune ''" "trim ''  dune '' = ''dune''" by code_simp+
  have bounds: "resolve_maxResults ?svc options5 = JNum 5"
    "resolve_maxResults ?svc (options_with (JNum 10)) = JNum 10"
    "safe_int 5" "safe_int 10"
    by code_simp+
  note same = searchBooks_key_is_trimmed_query_and_bound
    [OF resp ok nonnull empty len1 len2 uc5 uc5 text1 young]
  note other = searchBooks_key_is_trimmed_query_and_bound
    [OF resp ok nonnull empty len1 len1 uc5 uc10 text1 young]
  from same trims have a: "map fst (cache (service (searchBooks ?env ?svc (JStr ''  dune '') options5)))
     = [''search_dune_5'']"
    by simp
  from same trims have b: "fromCache (result (searchBooks ?env2
        (service (searchBooks ?env ?svc (JStr ''  dune '') options5)) (JStr ''dune'') options5))
        = Some True
      \<and> calls (searchBooks ?env2
        (service (searchBooks ?env ?svc (JStr ''  dune '') options5)) (JStr ''dune'') options5) = []"
    by (simp add: Let_def)
  have "\<exists>m1 m2. resolve_maxResults ?svc options5 = JNum m1
      \<and> resolve_maxResults ?svc (options_with (JNum 10)) = JNum m2
      \<and> safe_int m1 \<and> safe_int m2 \<and> m1 \<noteq> m2"
    using bounds by (intro exI [of _ 5] exI [of _ 10]) simp
  with other have c: "fromCache (result (searchBooks ?env2
        (service (searchBooks ?env ?svc (JStr ''  dune '') options5)) (JStr ''  dune '')
        (options_with (JNum 10)))) \<noteq> Some True
      \<and> length (calls (searchBooks ?env2
        (service (searchBooks ?env ?svc (JStr ''  dune '') options5)) (JStr ''  dune '')
        (options_with (JNum 10)))) = 1"
    by (simp add: Let_def)
  from a b c show ?thesis by blast
qed

subsection \<open>C2: what the operations store in the cache\<close>

text \<open>
  C2 at the input \<open>getBookDetails("x1")\<close> answered with status 200 and the body
  \<open>{"title": "Foo"}\<close>: the record has no \<open>id\<close>, so \<open>transformBookData\<close> returns
  \<open>null\<close>; \<open>getBookDetails\<close> stores that \<open>null\<close> under \<open>book_x1\<close> and reports success.
  A second call one minute later sends no request and serves the \<open>null\<close> from the
  cache. The list operations never store a failed normalisation, since
  \<open>transformBooksData\<close> filters the \<open>null\<close>s out.
\<close>

theorem details_caches_failed_normalisation:
  "transformBookData (now_stamps (respond body_record_without_id) 0) body_record_without_id = None
   \<and> success (result (getBookDetails (respond body_record_without_id) new_BooksApiService (JStr ''x1'') True))
   \<and> data (result (getBookDetails (respond body_record_without_id) new_BooksApiService (JStr ''x1'') True))
       = Some (BookItem None)
   \<and> cache (service (getBookDetails (respond body_record_without_id) new_BooksApiService (JStr ''x1'') True))
       = [(''book_x1'', \<lparr> cached_data = BookItem None, timestamp = 1700000000001 \<rparr>)]
   \<and> calls (getBookDetails (one_minute_later (respond body_record_without_id))
        (service (getBookDetails (respond body_record_without_id) new_BooksApiService (JStr ''x1'') True))
        (JStr ''x1'') True) = []
   \<and> result (getBookDetails (one_minute_later (respond body_record_without_id))
        (service (getBookDetails (respond body_record_without_id) new_BooksApiService (JStr ''x1'') True))
        (JStr ''x1'') True)
       = \<lparr> success = True, data = Some (BookItem None), totalItems = None, fromCache = Some True,
           error = None \<rparr>"
  by code_simp

subsection \<open>C3: the isbn of a normalised record\<close>

text \<open>
  C3, as stated, fails: \<open>find\<close> takes the first entry whose type is ISBN_13 or ISBN_10, in
  the order of the list. For a record that lists its ISBN-10 before its ISBN-13 the
  normalised \<open>isbn\<close> is the ISBN-10, where the claim asks for the ISBN-13.
\<close>

theorem isbn10_listed_first_wins:
  "industryIdentifiers_of book_isbn10_first = JArr ids_isbn10_first
   \<and> spec_isbn ids_isbn10_first = JStr ''9780306406157''
   \<and> map_option isbn (transformBookData [] book_isbn10_first) = Some (JStr ''0306406152'')"
  by code_simp

text \<open>
  C3, amended: for every raw record that normalises, \<open>industryIdentifiers\<close> is a list, the
  normalised \<open>isbn\<close> is the identifier (or \<open>null\<close>, when that identifier is missing or
  falsy) of the first entry of the list whose type is ISBN_13 or ISBN_10, whichever of the
  two types that entry has, and it is \<open>null\<close> when no entry has either type.
\<close>

theorem isbn_is_first_entry_of_either_type:
  assumes "transformBookData stamp book = Some r"
  shows "\<exists>xs. industryIdentifiers_of book = JArr xs
     \<and> (\<forall>i<length xs. is_isbn_id (xs ! i) \<and> (\<forall>j<i. \<not> is_isbn_id (xs ! j))
           \<longrightarrow> isbn r = js_or (js_get (xs ! i) ''identifier'') JNull)
     \<and> ((\<forall>x\<in>set xs. \<not> is_isbn_id x) \<longrightarrow> isbn r = JNull)"
proof -
  from assms have "transform_body stamp book = Some r"
    by (simp add: transformBookData_def split: if_splits)
  then have "isbn_of (industryIdentifiers_of book) = Some (isbn r)"
    by (rule transform_body_isbn)
  then obtain xs found
    where ids: "industryIdentifiers_of book = JArr xs"
      and found: "find_isbn xs = Some found"
      and isbn: "isbn r = js_or (if found = JUndef then JUndef else js_get found ''identifier'') JNull"
    by (auto simp: isbn_of_def split: jsval.splits option.splits)
  have first: "isbn r = js_or (js_get (xs ! i) ''identifier'') JNull"
    if "i < length xs" "is_isbn_id (xs ! i)" "\<forall>j<i. \<not> is_isbn_id (xs ! j)" for i
    using find_isbn_first [OF found that] isbn by simp
  have none: "isbn r = JNull" if "\<forall>x\<in>set xs. \<not> is_isbn_id x"
    using find_isbn_none [OF found that] isbn by (simp add: js_or_def)
  from ids first none show ?thesis by blast
qed

theorem isbn_is_first_entry_of_either_type_witness:
  "\<exists>r. transformBookData [] book_isbn10_first = Some r \<and> isbn r = JStr ''0306406152''"
proof -
  from sample_book_normalises obtain r where r: "transformBookData [] book_isbn10_first = Some r"
    by blast
  from isbn_is_first_entry_of_either_type [OF r] obtain xs
    where xs: "industryIdentifiers_of book_isbn10_first = JArr xs"
      and first: "\<forall>i<length xs. is_isbn_id (xs ! i) \<and> (\<forall>j<i. \<not> is_isbn_id (xs ! j))
           \<longrightarrow> isbn r = js_or (js_get (xs ! i) ''identifier'') JNull"
    by blast
  have "industryIdentifiers_of book_isbn10_first = JArr ids_isbn10_first"
    by code_simp
  with xs have "xs = ids_isbn10_first" by simp
  with first have "0 < length ids_isbn10_first \<and> is_isbn_id (ids_isbn10_first ! 0)
      \<and> (\<forall>j<0. \<not> is_isbn_id (ids_isbn10_first ! j))
      \<longrightarrow> isbn r = js_or (js_get (ids_isbn10_first ! 0) ''identifier'') JNull"
    by blast
  moreover have "0 < length ids_isbn10_first" "is_isbn_id (ids_isbn10_first ! 0)"
    "js_or (js_get (ids_isbn10_first ! 0) ''identifier'') JNull = JStr ''0306406152''"
    by code_simp+
  ultimately have "isbn r = JStr ''0306406152''" by simp
  with r show ?thesis by blast
qed

subsection \<open>C4: the sweep of a full cache\<close>

text \<open>
  C4 at a cache of 100 entries into which a new key is inserted at the clock reading
  1700000300000: the entry \<open>k0\<close> is then exactly one time-to-live old. A read at that
  reading finds it expired (\<open>isValidCache\<close> asks for an age below the time-to-live), the
  insertion makes 101 entries and runs the sweep, and the sweep keeps \<open>k0\<close>, because
  \<open>clearOldCache\<close> deletes only entries whose age is above the time-to-live.
\<close>

theorem sweep_keeps_entry_aged_exactly_ttl:
  "length (cache svc_full) = 100
   \<and> map_of (cache svc_full) ''k0'' = Some (entry_at 1700000000000)
   \<and> 1700000300000 - timestamp (entry_at 1700000000000) = cacheTimeout svc_full
   \<and> fst (isValidCache 1700000300000 ''k0'' svc_full) = False
   \<and> setCache 1700000300000 1700000300000 ''new'' (BookList []) svc_full
       = clearOldCache 1700000300000
           (svc_full\<lparr>cache := Map_set ''new'' (entry_at 1700000300000) (cache svc_full)\<rparr>)
   \<and> map_of (cache (setCache 1700000300000 1700000300000 ''new'' (BookList []) svc_full)) ''k0''
       = Some (entry_at 1700000000000)"
proof -
  have len: "length (cache svc_full) = 100"
    by (simp add: svc_full_def cache_of_100_def)
  have k0: "map_of (cache svc_full) ''k0'' = Some (entry_at 1700000000000)"
    by (simp add: svc_full_def cache_of_100_def)
  have ttl: "cacheTimeout svc_full = 300000"
    by (simp add: svc_full_def new_BooksApiService_def)
  have age: "1700000300000 - timestamp (entry_at 1700000000000) = cacheTimeout svc_full"
    by (simp add: ttl entry_at_def)
  have read: "fst (isValidCache 1700000300000 ''k0'' svc_full) = False"
    by (simp add: isValidCache_def k0 ttl entry_at_def)
  have fresh_key: "''new'' \<notin> fst ` set (cache svc_full)"
    by (auto simp: svc_full_def cache_of_100_def)
  have over: "length (Map_set ''new'' (entry_at 1700000300000) (cache svc_full)) > 100"
    by (simp add: length_Map_set_new [OF fresh_key] len)
  have sweep: "setCache 1700000300000 1700000300000 ''new'' (BookList []) svc_full
       = clearOldCache 1700000300000
           (svc_full\<lparr>cache := Map_set ''new'' (entry_at 1700000300000) (cache svc_full)\<rparr>)"
    using over by (simp add: setCache_def Let_def entry_at_def)
  have "map_of (Map_set ''new'' (entry_at 1700000300000) (cache svc_full)) ''k0''
      = Some (entry_at 1700000000000)"
    by (simp add: map_of_Map_set k0)
  then have kept: "map_of (cache (setCache 1700000300000 1700000300000 ''new'' (BookList []) svc_full)) ''k0''
       = Some (entry_at 1700000000000)"
    by (simp add: sweep clearOldCache_def map_of_filter_keeps ttl entry_at_def)
  from len k0 age read sweep kept show ?thesis by blast
qed

subsection \<open>C5: reads of an expired entry\<close>

text \<open>
  C5: an entry is expired at a clock reading when \<open>now - timestamp\<close> is not below the
  time-to-live. A read (\<open>isValidCache\<close>) of an expired entry reports a miss and deletes the
  entry, so that the statistics count one entry less (the keys of the cache being distinct,
  as the keys of a \<open>Map\<close> are). An operation that uses the cache and finds the entry of its
  key expired runs exactly as on the service without that entry: it sends one request and
  does not answer from the cache; when it fails it returns no data and leaves the service
  without the entry; when it succeeds its data is the normalised body that the network
  answered, stored anew under the key. And in every run of an operation, with or without
  the cache, the result is a failure without data, or it is answered from the cache with the
  data of an entry that the read found younger than the time-to-live and no request is sent,
  or its data is the normalised body that the network answered to the one request sent. So
  no operation returns an expired value.
\<close>

theorem expired_entry_is_a_miss_and_is_evicted:
  "(distinct (map fst (cache svc)) \<and> expired_at now svc key
      \<longrightarrow> isValidCache now key svc = (False, without_entry key svc)
        \<and> map_of (cache (without_entry key svc)) key = None
        \<and> Suc (entries (getCacheStats (without_entry key svc))) = entries (getCacheStats svc))
   \<and> (\<not> length (trim s) < 2 \<and> resolve_useCache options
        \<and> search_cacheKey (trim s) (resolve_maxResults svc options) = Some skey
        \<and> expired_at (now_check env) svc skey
      \<longrightarrow> (let run = searchBooks env svc (JStr s) options in
             run = searchBooks env (without_entry skey svc) (JStr s) options
           \<and> length (calls run) = 1
           \<and> fromCache (result run) \<noteq> Some True
           \<and> (if success (result run)
              then \<exists>status statusText d.
                     fetch env (hd (calls run)) = FetchResponse status statusText (Some d)
                   \<and> data (result run)
                       = Some (BookList (transformBooksData (now_stamps env)
                                           (js_or (js_get d ''books'') (JArr []))))
                   \<and> service run
                       = setCache (now_store env) (now_sweep env) skey
                           (BookList (transformBooksData (now_stamps env)
                                        (js_or (js_get d ''books'') (JArr []))))
                           (without_entry skey svc)
              else data (result run) = None \<and> service run = without_entry skey svc)))
   \<and> (expired_at (now_check env) svc ''all_books''
      \<longrightarrow> (let run = getAllBooks env svc True in
             run = getAllBooks env (without_entry ''all_books'' svc) True
           \<and> length (calls run) = 1
           \<and> fromCache (result run) \<noteq> Some True
           \<and> (if success (result run)
              then \<exists>status statusText d.
                     fetch env (hd (calls run)) = FetchResponse status statusText (Some d)
                   \<and> data (result run)
                       = Some (BookList (transformBooksData (now_stamps env)
                                           (js_or (js_get d ''books'') (JArr []))))
                   \<and> service run
                       = setCache (now_store env) (now_sweep env) ''all_books''
                           (BookList (transformBooksData (now_stamps env)
                                        (js_or (js_get d ''books'') (JArr []))))
                           (without_entry ''all_books'' svc)
              else data (result run) = None
                 \<and> service run = without_entry ''all_books'' svc)))
   \<and> (truthy book_id \<and> js_toString book_id = Some idText
        \<and> expired_at (now_check env) svc (''book_'' @ idText)
      \<longrightarrow> (let run = getBookDetails env svc book_id True in
             run = getBookDetails env (without_entry (''book_'' @ idText) svc) book_id True
           \<and> length (calls run) = 1
           \<and> fromCache (result run) \<noteq> Some True
           \<and> (if success (result run)
              then \<exists>status statusText d.
                     fetch env (hd (calls run)) = FetchResponse status statusText (Some d)
                   \<and> data (result run)
                       = Some (BookItem (transformBookData (now_stamps env 0) d))
                   \<and> service run
                       = setCache (now_store env) (now_sweep env) (''book_'' @ idText)
                           (BookItem (transformBookData (now_stamps env 0) d))
                           (without_entry (''book_'' @ idText) svc)
              else data (result run) = None
                 \<and> service run = without_entry (''book_'' @ idText) svc)))
   \<and> (let run = searchBooks env svc query options in
          (\<not> success (result run) \<and> data (result run) = None \<and> fromCache (result run) = None)
        \<or> (success (result run) \<and> fromCache (result run) = Some True \<and> calls run = []
           \<and> (\<exists>s key e. query = JStr s
                 \<and> search_cacheKey (trim s) (resolve_maxResults svc options) = Some key
                 \<and> map_of (cache svc) key = Some e
                 \<and> now_check env - timestamp e < cacheTimeout svc
                 \<and> data (result run) = Some (cached_data e)))
        \<or> (success (result run) \<and> fromCache (result run) = Some False
           \<and> (\<exists>call status statusText d. calls run = [call]
                 \<and> fetch env call = FetchResponse status statusText (Some d)
                 \<and> data (result run)
                     = Some (BookList (transformBooksData (now_stamps env)
                                         (js_or (js_get d ''books'') (JArr [])))))))
   \<and> (let run = getAllBooks env svc useCache in
          (\<not> success (result run) \<and> data (result run) = None \<and> fromCache (result run) = None)
        \<or> (success (result run) \<and> fromCache (result run) = Some True \<and> calls run = []
           \<and> (\<exists>e. map_of (cache svc) ''all_books'' = Some e
                 \<and> now_check env - timestamp e < cacheTimeout svc
                 \<and> data (result run) = Some (cached_data e)))
        \<or> (success (result run) \<and> fromCache (result run) = Some False
           \<and> (\<exists>call status statusText d. calls run = [call]
                 \<and> fetch env call = FetchResponse status statusText (Some d)
                 \<and> data (result run)
                     = Some (BookList (transformBooksData (now_stamps env)
                                         (js_or (js_get d ''books'') (JArr [])))))))
   \<and> (let run = getBookDetails env svc any_id useCache in
          (\<not> success (result run) \<and> data (result run) = None \<and> fromCache (result run) = None)
        \<or> (success (result run) \<and> fromCache (result run) = Some True \<and> calls run = []
           \<and> (\<exists>idText e. js_toString any_id = Some idText
                 \<and> map_of (cache svc) (''book_'' @ idText) = Some e
                 \<and> now_check env - timestamp e < cacheTimeout svc
                 \<and> data (result run) = Some (cached_data e)))
        \<or> (success (result run) \<and> fromCache (result run) = Some False
           \<and> (\<exists>call status statusText d. calls run = [call]
                 \<and> fetch env call = FetchResponse status statusText (Some d)
                 \<and> data (result run)
                     = Some (BookItem (transformBookData (now_stamps env 0) d)))))"
proof (intro conjI impI)
  assume a: "distinct (map fst (cache svc)) \<and> expired_at now svc key"
  then show "isValidCache now key svc = (False, without_entry key svc)"
    by (simp add: isValidCache_expired)
  show "map_of (cache (without_entry key svc)) key = None"
    by (rule without_entry_gone)
  from a show "Suc (entries (getCacheStats (without_entry key svc))) = entries (getCacheStats svc)"
    by (blast intro: without_entry_count)
next
  assume "\<not> length (trim s) < 2 \<and> resolve_useCache options
        \<and> search_cacheKey (trim s) (resolve_maxResults svc options) = Some skey
        \<and> expired_at (now_check env) svc skey"
  then show "let run = searchBooks env svc (JStr s) options in
             run = searchBooks env (without_entry skey svc) (JStr s) options
           \<and> length (calls run) = 1
           \<and> fromCache (result run) \<noteq> Some True
           \<and> (if success (result run)
              then \<exists>status statusText d.
                     fetch env (hd (calls run)) = FetchResponse status statusText (Some d)
                   \<and> data (result run)
                       = Some (BookList (transformBooksData (now_stamps env)
                                           (js_or (js_get d ''books'') (JArr []))))
                   \<and> service run
                       = setCache (now_store env) (now_sweep env) skey
                           (BookList (transformBooksData (now_stamps env)
                                        (js_or (js_get d ''books'') (JArr []))))
                           (without_entry skey svc)
              else data (result run) = None \<and> service run = without_entry skey svc)"
    by (intro searchBooks_expired) simp_all
next
  assume "expired_at (now_check env) svc ''all_books''"
  then show "let run = getAllBooks env svc True in
             run = getAllBooks env (without_entry ''all_books'' svc) True
           \<and> length (calls run) = 1
           \<and> fromCache (result run) \<noteq> Some True
           \<and> (if success (result run)
              then \<exists>status statusText d.
                     fetch env (hd (calls run)) = FetchResponse status statusText (Some d)
                   \<and> data (result run)
                       = Some (BookList (transformBooksData (now_stamps env)
                                           (js_or (js_get d ''books'') (JArr []))))
                   \<and> service run
                       = setCache (now_store env) (now_sweep env) ''all_books''
                           (BookList (transformBooksData (now_stamps env)
                                        (js_or (js_get d ''books'') (JArr []))))
                           (without_entry ''all_books'' svc)
              else data (result run) = None
                 \<and> service run = without_entry ''all_books'' svc)"
    by (rule getAllBooks_expired)
next
  assume "truthy book_id \<and> js_toString book_id = Some idText
        \<and> expired_at (now_check env) svc (''book_'' @ idText)"
  then show "let run = getBookDetails env svc book_id True in
             run = getBookDetails env (without_entry (''book_'' @ idText) svc) book_id True
           \<and> length (calls run) = 1
           \<and> fromCache (result run) \<noteq> Some True
           \<and> (if success (result run)
              then \<exists>status statusText d.
                     fetch env (hd (calls run)) = FetchResponse status statusText (Some d)
                   \<and> data (result run)
                       = Some (BookItem (transformBookData (now_stamps env 0) d))
                   \<and> service run
                       = setCache (now_store env) (now_sweep env) (''book_'' @ idText)
                           (BookItem (transformBookData (now_stamps env 0) d))
                           (without_entry (''book_'' @ idText) svc)
              else data (result run) = None
                 \<and> service run = without_entry (''book_'' @ idText) svc)"
    by (intro getBookDetails_expired) simp_all
qed (fact searchBooks_provenance getAllBooks_provenance getBookDetails_provenance)+

theorem expired_entry_is_a_miss_and_is_evicted_witness:
  "distinct (map fst (cache svc_one_entry))
   \<and> expired_at 300000 svc_one_entry ''all_books''
   \<and> entries (getCacheStats svc_one_entry) = 1
   \<and> isValidCache 300000 ''all_books'' svc_one_entry
       = (False, without_entry ''all_books'' svc_one_entry)
   \<and> entries (getCacheStats (without_entry ''all_books'' svc_one_entry)) = 0
   \<and> length (calls (getAllBooks (env_offline\<lparr>now_check := 300000\<rparr>) svc_one_entry True)) = 1
   \<and> fromCache (result (getAllBooks (env_offline\<lparr>now_check := 300000\<rparr>) svc_one_entry True))
       \<noteq> Some True
   \<and> data (result (getAllBooks (env_offline\<lparr>now_check := 300000\<rparr>) svc_one_entry True)) = None
   \<and> service (getAllBooks (env_offline\<lparr>now_check := 300000\<rparr>) svc_one_entry True)
       = without_entry ''all_books'' svc_one_entry"
proof -
  let ?env = "env_offline\<lparr>now_check := 300000\<rparr>"
  have d: "distinct (map fst (cache svc_one_entry))" by code_simp
  have x: "expired_at 300000 svc_one_entry ''all_books''" by code_simp
  then have x': "expired_at (now_check ?env) svc_one_entry ''all_books''" by simp
  have n: "entries (getCacheStats svc_one_entry) = 1" by code_simp
  have fails: "\<not> success (result (getAllBooks ?env svc_one_entry True))" by code_simp
  note all = expired_entry_is_a_miss_and_is_evicted
    [where svc = svc_one_entry and now = 300000 and key = "''all_books''" and env = ?env]
  from all d x have read: "isValidCache 300000 ''all_books'' svc_one_entry
       = (False, without_entry ''all_books'' svc_one_entry)"
    and count: "Suc (entries (getCacheStats (without_entry ''all_books'' svc_one_entry)))
       = entries (getCacheStats svc_one_entry)"
    by blast+
  from all x' have run: "let run = getAllBooks ?env svc_one_entry True in
             run = getAllBooks ?env (without_entry ''all_books'' svc_one_entry) True
           \<and> length (calls run) = 1
           \<and> fromCache (result run) \<noteq> Some True
           \<and> (if success (result run)
              then \<exists>status statusText d.
                     fetch ?env (hd (calls run)) = FetchResponse status statusText (Some d)
                   \<and> data (result run)
                       = Some (BookList (transformBooksData (now_stamps ?env)
                                           (js_or (js_get d ''books'') (JArr []))))
                   \<and> service run
                       = setCache (now_store ?env) (now_sweep ?env) ''all_books''
                           (BookList (transformBooksData (now_stamps ?env)
                                        (js_or (js_get d ''books'') (JArr []))))
                           (without_entry ''all_books'' svc_one_entry)
              else data (result run) = None
                 \<and> service run = without_entry ''all_books'' svc_one_entry)"
    by blast
  note rest = run [unfolded Let_def, THEN conjunct2]
  from rest fails have "length (calls (getAllBooks ?env svc_one_entry True)) = 1"
    and "fromCache (result (getAllBooks ?env svc_one_entry True)) \<noteq> Some True"
    and "data (result (getAllBooks ?env svc_one_entry True)) = None"
    and "service (getAllBooks ?env svc_one_entry True) = without_entry ''all_books'' svc_one_entry"
    by simp_all
  with d x n read count show ?thesis by simp
qed

subsection \<open>C6: normalising a record twice\<close>

text \<open>
  C6, as stated, fails: every normalised record carries \<open>transformedAt\<close>, the clock reading
  of its own normalisation, so two normalisations of one raw record a millisecond apart
  are not equal in all fields.
\<close>

theorem normalising_twice_at_different_times:
  "transformBookData ''2024-01-01T00:00:00.000Z'' book_isbn10_first
     \<noteq> transformBookData ''2024-01-01T00:00:00.001Z'' book_isbn10_first"
  by code_simp

text \<open>
  C6, amended: normalising a raw record twice gives the same outcome except for the field
  \<open>transformedAt\<close>: either both normalisations return \<open>null\<close>, or both return a record,
  and the second record is the first one with \<open>transformedAt\<close> set to the time of the second
  normalisation, so all other fields are equal.
\<close>

theorem normalising_twice_differs_only_in_transformedAt:
  "transformBookData t2 book
     = map_option (\<lambda>r. r\<lparr>transformedAt := t2\<rparr>) (transformBookData t1 book)"
  by (simp add: transformBookData_def transform_body_stamp [of t2 book t1])

theorem normalising_twice_differs_only_in_transformedAt_witness:
  "transformBookData ''later'' book_isbn10_first
     = map_option (\<lambda>r. r\<lparr>transformedAt := ''later''\<rparr>)
         (transformBookData ''earlier'' book_isbn10_first)
   \<and> transformBookData ''earlier'' book_isbn10_first \<noteq> None"
  using normalising_twice_differs_only_in_transformedAt [of "''later''" book_isbn10_first "''earlier''"]
    sample_book_normalises
    normalising_twice_differs_only_in_transformedAt [of "''earlier''" book_isbn10_first "[]"]
  by auto

subsection \<open>C7: the fields of a successful search result\<close>

text \<open>
  C7 at the input \<open>searchBooks("dune", {maxResults: 5})\<close> called twice, one minute
  apart, the request answered with one book: the first result carries \<open>totalItems\<close>,
  the second, served from the cache, is successful and has no \<open>totalItems\<close> field.
\<close>

theorem cached_search_result_has_no_totalItems:
  "totalItems (result (searchBooks (respond body_one_book) new_BooksApiService (JStr ''dune'') options5))
       = Some (JNum 1)
   \<and> success (result (searchBooks (one_minute_later (respond body_one_book))
        (service (searchBooks (respond body_one_book) new_BooksApiService (JStr ''dune'') options5))
        (JStr ''dune'') options5))
   \<and> fromCache (result (searchBooks (one_minute_later (respond body_one_book))
        (service (searchBooks (respond body_one_book) new_BooksApiService (JStr ''dune'') options5))
        (JStr ''dune'') options5)) = Some True
   \<and> totalItems (result (searchBooks (one_minute_later (respond body_one_book))
        (service (searchBooks (respond body_one_book) new_BooksApiService (JStr ''dune'') options5))
        (JStr ''dune'') options5)) = None"
  by code_simp

subsection \<open>C8: one record without identifier in a batch\<close>

text \<open>
  C8, as stated, fails: a record that has its identifier can still be dropped, because an
  exception inside its normalisation is caught and turned into \<open>null\<close>. In a batch of two
  records, one without \<open>id\<close> and one whose \<open>authors\<close> is the number 5 (\<open>autores.join\<close> is
  not a function), exactly one record lacks its identifier and the batch yields no record
  at all, not one.
\<close>

theorem batch_can_drop_a_record_that_has_an_id:
  "length (filter lacks_id [JObj [], book_bad_authors]) = 1
   \<and> length (transformBooksData (\<lambda>i. []) (JArr [JObj [], book_bad_authors])) \<noteq> 2 - 1"
  by code_simp

text \<open>
  C8, amended: for every list of N raw records in which one record lacks its identifier
  and every other record normalises, batch normalisation returns exactly the normalised
  other records, in their order: N - 1 records. The operation returns a list in every case
  (its result type has no error).
\<close>

theorem batch_drops_only_the_record_without_id:
  assumes i: "i < length bs"
    and bad: "lacks_id (bs ! i)"
    and good: "\<forall>j<length bs. j \<noteq> i \<longrightarrow> transformBookData (stamps j) (bs ! j) \<noteq> None"
  shows "map Some (transformBooksData stamps (JArr bs))
           = map (\<lambda>j. transformBookData (stamps j) (bs ! j)) (filter (\<lambda>j. j \<noteq> i) [0..<length bs])
       \<and> length (transformBooksData stamps (JArr bs)) = length bs - 1"
proof -
  let ?g = "\<lambda>j. transformBookData (stamps j) (bs ! j)"
  have "map Some (transformBooksData stamps (JArr bs))
          = filter (\<lambda>y. y \<noteq> None) (map ?g [0..<length bs])"
    by (simp add: transformBooksData_def map_Some_map_filter map_enumerate_nth)
  also have "\<dots> = map ?g (filter (\<lambda>j. ?g j \<noteq> None) [0..<length bs])"
    by (simp add: filter_map comp_def)
  also have "filter (\<lambda>j. ?g j \<noteq> None) [0..<length bs] = filter (\<lambda>j. j \<noteq> i) [0..<length bs]"
  proof (rule filter_cong [OF refl])
    fix j
    assume "j \<in> set [0..<length bs]"
    then have "j < length bs" by simp
    with bad good show "(?g j \<noteq> None) = (j \<noteq> i)"
      by (auto simp: transformBookData_def)
  qed
  finally have eq: "map Some (transformBooksData stamps (JArr bs))
      = map ?g (filter (\<lambda>j. j \<noteq> i) [0..<length bs])" .
  then have "length (map Some (transformBooksData stamps (JArr bs)))
      = length (map ?g (filter (\<lambda>j. j \<noteq> i) [0..<length bs]))"
    by simp
  with i have "length (transformBooksData stamps (JArr bs)) = length bs - 1"
    by (simp add: length_filter_neq_upt)
  with eq show ?thesis by blast
qed

theorem batch_drops_only_the_record_without_id_witness:
  "length (transformBooksData (\<lambda>i. []) (JArr [book_isbn10_first, JObj [], book_isbn10_first])) = 2"
proof -
  let ?bs = "[book_isbn10_first, JObj [], book_isbn10_first]"
  have i: "1 < length ?bs" by simp
  have bad: "lacks_id (?bs ! 1)" by code_simp
  have good: "\<forall>j<length ?bs. j \<noteq> 1 \<longrightarrow> transformBookData ((\<lambda>i. []) j) (?bs ! j) \<noteq> None"
  proof (intro allI impI)
    fix j :: nat
    assume "j < length ?bs" "j \<noteq> 1"
    then have "j = 0 \<or> j = 2" by auto
    with sample_book_normalises show "transformBookData ((\<lambda>i. []) j) (?bs ! j) \<noteq> None"
      by auto
  qed
  from batch_drops_only_the_record_without_id [OF i bad good] show ?thesis by simp
qed

subsection \<open>C9: validation of the query\<close>

text \<open>
  C9: for every query that is absent (\<open>undefined\<close> or \<open>null\<close>) or a string whose trimmed
  length is less than 2, the search returns the failure result with the validation message,
  sends no request, and leaves the service, its cache included, as it was, whatever the
  cache holds and whatever the network would answer.
\<close>

theorem search_validation_short_circuit:
  assumes "query = JUndef \<or> query = JNull \<or> (\<exists>s. query = JStr s \<and> length (trim s) < 2)"
  shows "result (searchBooks env svc query options) = failure msg_validation
       \<and> success (result (searchBooks env svc query options)) = False
       \<and> error (result (searchBooks env svc query options)) = Some msg_validation
       \<and> calls (searchBooks env svc query options) = []
       \<and> service (searchBooks env svc query options) = svc"
  using assms by (auto simp: searchBooks_def failure_def)

theorem search_validation_short_circuit_witness:
  "length (trim ''a'') < 2
   \<and> success (result (searchBooks env_offline new_BooksApiService (JStr ''a'') options5)) = False
   \<and> calls (searchBooks env_offline new_BooksApiService (JStr ''a'') options5) = []"
proof -
  have short: "length (trim ''a'') < 2"
    by (simp add: trim_def is_space_def)
  then have "JStr ''a'' = JUndef \<or> JStr ''a'' = JNull
      \<or> (\<exists>s. JStr ''a'' = JStr s \<and> length (trim s) < 2)"
    by blast
  from search_validation_short_circuit [OF this] short show ?thesis
    by blast
qed

subsection \<open>C10: a 2xx body without a books array\<close>

text \<open>
  C10, as stated, fails for the body \<open>null\<close>: it has no \<open>books\<close> array, reading
  \<open>response.data.books\<close> throws, and the \<open>catch\<close> of the operation returns a failure.
\<close>

theorem null_body_is_a_failure:
  "calls (searchBooks (respond JNull) new_BooksApiService (JStr ''dune'') options5) \<noteq> []
   \<and> success (result (searchBooks (respond JNull) new_BooksApiService (JStr ''dune'') options5)) = False
   \<and> calls (getAllBooks (respond JNull) new_BooksApiService True) \<noteq> []
   \<and> success (result (getAllBooks (respond JNull) new_BooksApiService True)) = False"
  by code_simp

text \<open>
  C10, amended: for every 2xx response whose parsed body is not \<open>null\<close> and has no
  \<open>books\<close> array (the field is absent or is not an array), a \<open>searchBooks\<close> or
  \<open>getAllBooks\<close> that sent the request returns a successful result with an empty data list,
  not served from the cache.
\<close>

theorem missing_books_array_gives_empty_list:
  assumes resp: "\<forall>c. fetch env c = FetchResponse status statusText (Some body)"
    and ok: "200 \<le> status" "status \<le> 299"
    and nonnull: "\<not> nullish body"
    and nobooks: "\<forall>bs. js_get body ''books'' \<noteq> JArr bs"
  shows "(calls (searchBooks env svc query options) \<noteq> []
            \<longrightarrow> success (result (searchBooks env svc query options))
              \<and> data (result (searchBooks env svc query options)) = Some (BookList [])
              \<and> fromCache (result (searchBooks env svc query options)) = Some False)
       \<and> (calls (getAllBooks env svc useCache) \<noteq> []
            \<longrightarrow> success (result (getAllBooks env svc useCache))
              \<and> data (result (getAllBooks env svc useCache)) = Some (BookList [])
              \<and> fromCache (result (getAllBooks env svc useCache)) = Some False)"
proof -
  note req = makeRequest_2xx [OF resp ok]
  note empty = transformBooksData_no_array [OF nobooks]
  have search: "success (result (searchBooks env svc query options))
              \<and> data (result (searchBooks env svc query options)) = Some (BookList [])
              \<and> fromCache (result (searchBooks env svc query options)) = Some False"
    if sent: "calls (searchBooks env svc query options) \<noteq> []"
  proof -
    from sent obtain s where q: "query = JStr s" and len: "\<not> length (trim s) < 2"
      by (cases query) (auto simp: searchBooks_def split: if_splits)
    from len have ne: "s \<noteq> []" by (rule valid_query_not_empty)
    from sent q len ne obtain key
      where key: "search_cacheKey (trim s) (resolve_maxResults svc options) = Some key"
      by (cases "search_cacheKey (trim s) (resolve_maxResults svc options)")
        (auto simp: searchBooks_def Let_def)
    obtain valid svc1 where v: "(if resolve_useCache options
          then isValidCache (now_check env) key svc else (False, svc)) = (valid, svc1)"
      by (cases "if resolve_useCache options
          then isValidCache (now_check env) key svc else (False, svc)")
    obtain call response where m: "makeRequest svc1 (fetch env) ''POST'' (endpoint_SEARCH svc1)
        (Some (JObj [(''query'', JStr (trim s)), (''maxResults'', resolve_maxResults svc options)]))
        = (call, response)"
      by (cases "makeRequest svc1 (fetch env) ''POST'' (endpoint_SEARCH svc1)
        (Some (JObj [(''query'', JStr (trim s)), (''maxResults'', resolve_maxResults svc options)]))")
    from req [OF m] have r: "response = Inr body" .
    from sent q len ne key v have miss: "\<not> (resolve_useCache options \<and> valid)"
      by (auto simp: searchBooks_def Let_def split: option.splits)
    from searchBooks_miss(3) [OF len key v miss m r nonnull] q show ?thesis
      by (simp add: empty)
  qed
  have all: "success (result (getAllBooks env svc useCache))
              \<and> data (result (getAllBooks env svc useCache)) = Some (BookList [])
              \<and> fromCache (result (getAllBooks env svc useCache)) = Some False"
    if sent: "calls (getAllBooks env svc useCache) \<noteq> []"
  proof -
    obtain valid svc1 where v: "(if useCache
          then isValidCache (now_check env) ''all_books'' svc else (False, svc)) = (valid, svc1)"
      by (cases "if useCache
          then isValidCache (now_check env) ''all_books'' svc else (False, svc)")
    obtain call response where m: "makeRequest svc1 (fetch env) ''GET'' (endpoint_GET_ALL svc1) None
        = (call, response)"
      by (cases "makeRequest svc1 (fetch env) ''GET'' (endpoint_GET_ALL svc1) None")
    from req [OF m] have r: "response = Inr body" .
    from sent v have miss: "\<not> (useCache \<and> valid)"
      by (auto simp: getAllBooks_def Let_def split: option.splits)
    from v m r miss nonnull show ?thesis
      by (auto simp: getAllBooks_def Let_def empty)
  qed
  from search all show ?thesis by blast
qed

theorem missing_books_array_gives_empty_list_witness:
  "calls (searchBooks (respond body_without_books) new_BooksApiService (JStr ''dune'') options5) \<noteq> []
   \<and> data (result (searchBooks (respond body_without_books) new_BooksApiService (JStr ''dune'') options5))
       = Some (BookList [])
   \<and> calls (getAllBooks (respond body_without_books) new_BooksApiService True) \<noteq> []
   \<and> data (result (getAllBooks (respond body_without_books) new_BooksApiService True))
       = Some (BookList [])"
proof -
  have resp: "\<forall>c. fetch (respond body_without_books) c = FetchResponse 200 ''OK'' (Some body_without_books)"
    by (simp add: respond_def)
  have nonnull: "\<not> nullish body_without_books" by code_simp
  have nobooks: "\<forall>bs. js_get body_without_books ''books'' \<noteq> JArr bs"
    by (simp add: body_without_books_def)
  have sent1: "calls (searchBooks (respond body_without_books) new_BooksApiService (JStr ''dune'') options5) \<noteq> []"
    by code_simp
  have sent2: "calls (getAllBooks (respond body_without_books) new_BooksApiService True) \<noteq> []"
    by code_simp
  from missing_books_array_gives_empty_list [OF resp _ _ nonnull nobooks,
      of new_BooksApiService "JStr ''dune''" options5 True] sent1 sent2
  show ?thesis by simp
qed

end
